theory Spec2Isabelle
  imports Complex_Main
begin

section \<open>JavaScript values and host operations\<close>

text \<open>
  Values as the TypeScript sources handle them. A number is a real (the sources only
  subtract two clock readings and test a number for zero); a string is a list of bytes
  (UTF-8), on which the substring and prefix tests with ASCII needles agree with the
  tests on UTF-16 code units. An object is the list of its own enumerable entries in
  \<open>Object.entries\<close> order. \<open>ErrorObj m s own\<close> is an instance of \<open>Error\<close> with
  \<open>message\<close> m, \<open>stack\<close> s and enumerable own entries \<open>own\<close>. \<open>HostObject n\<close> is an
  object that is not plain data, such as a realtime channel (an instance of a class, whose
  fields may lead back to it); it has none of the properties that the sources read by name.
\<close>

datatype jsval =
    Undefined
  | Null
  | Bool bool
  | Num real
  | Str string
  | Arr "jsval list"
  | Obj "(string \<times> jsval) list"
  | ErrorObj string jsval "(string \<times> jsval) list"
  | HostObject nat

text \<open>Truthiness, as \<open>if (v)\<close>, \<open>v || d\<close> and \<open>c ? a : b\<close> test it.\<close>

fun truthy :: "jsval \<Rightarrow> bool" where
  "truthy Undefined = False"
| "truthy Null = False"
| "truthy (Bool b) = b"
| "truthy (Num n) = (n \<noteq> 0)"
| "truthy (Str s) = (s \<noteq> [])"
| "truthy (Arr vs) = True"
| "truthy (Obj kvs) = True"
| "truthy (ErrorObj m s own) = True"
| "truthy (HostObject n) = True"

text \<open>\<open>typeof v === "object"\<close> (true of \<open>null\<close> as well).\<close>

fun typeof_object :: "jsval \<Rightarrow> bool" where
  "typeof_object Null = True"
| "typeof_object (Arr vs) = True"
| "typeof_object (Obj kvs) = True"
| "typeof_object (ErrorObj m s own) = True"
| "typeof_object (HostObject n) = True"
| "typeof_object v = False"

text \<open>
  Property read \<open>v.k\<close> on a value that is neither \<open>undefined\<close> nor \<open>null\<close>, for the
  property names the sources read (none of them lives on a prototype of a primitive or
  of an array): an own entry, or \<open>undefined\<close>.
\<close>

fun get_prop :: "jsval \<Rightarrow> string \<Rightarrow> jsval" where
  "get_prop (Obj kvs) k = (case map_of kvs k of Some v \<Rightarrow> v | None \<Rightarrow> Undefined)"
| "get_prop (ErrorObj m s own) k =
     (if k = ''message'' then Str m
      else if k = ''stack'' then s
      else (case map_of own k of Some v \<Rightarrow> v | None \<Rightarrow> Undefined))"
| "get_prop v k = Undefined"

text \<open>Optional chaining \<open>v?.k\<close>.\<close>

definition opt_prop :: "jsval \<Rightarrow> string \<Rightarrow> jsval" where
  "opt_prop v k = (if v = Undefined \<or> v = Null then Undefined else get_prop v k)"

text \<open>Assignment \<open>o[k] = v\<close> on a plain object: overwrite in place, or add at the end.\<close>

fun obj_set :: "(string \<times> jsval) list \<Rightarrow> string \<Rightarrow> jsval \<Rightarrow> (string \<times> jsval) list" where
  "obj_set [] k v = [(k, v)]"
| "obj_set ((k', v') # kvs) k v =
     (if k' = k then (k, v) # kvs else (k', v') # obj_set kvs k v)"

text \<open>An object literal \<open>{...base, ...entries}\<close>.\<close>

definition spread :: "(string \<times> jsval) list \<Rightarrow> (string \<times> jsval) list \<Rightarrow> (string \<times> jsval) list" where
  "spread base entries = foldl (\<lambda>acc (k, v). obj_set acc k v) base entries"

text \<open>\<open>s.startsWith(p)\<close> and \<open>s.includes(sub)\<close>, the latter named includes_str here.\<close>

definition startsWith :: "string \<Rightarrow> string \<Rightarrow> bool" where
  "startsWith s p = (take (length p) s = p)"

fun includes_str :: "string \<Rightarrow> string \<Rightarrow> bool" where
  "includes_str [] sub = (sub = [])"
| "includes_str (c # cs) sub = (startsWith (c # cs) sub \<or> includes_str cs sub)"

text \<open>The exceptions the runtime itself raises in the code below.\<close>

datatype js_exception = TypeError | RangeError | SyntaxError

text \<open>
  The operations of the JavaScript runtime, taken as parameters. Those whose output is
  text: \<open>ToString\<close> on a number or an object, \<open>Number.prototype.toFixed(2)\<close>,
  \<open>Date.prototype.toISOString\<close> on a valid time value, \<open>JSON.stringify(v)\<close>,
  \<open>JSON.stringify(v, null, 2)\<close>, \<open>new Date(v).toISOString()\<close> on a string or an
  object (\<open>None\<close> when it throws RangeError), and
  \<open>s.replace(/https:\/\/.*\.supabase\.co/, "[SUPABASE_URL]")\<close>. Then: whether \<open>ToString\<close>
  raises TypeError on an object (one whose \<open>toString\<close> and \<open>valueOf\<close> give no primitive,
  as \<open>{toString: null}\<close>), whether \<open>JSON.stringify\<close> raises TypeError on an object (a
  cyclic structure, or one that holds a BigInt), the \<open>Error\<close> object that the runtime
  makes for an exception it raises, and the subtraction of two doubles (the clock
  readings are doubles; a real stands for the double of that value).
\<close>

record host =
  ToString :: "jsval \<Rightarrow> string"
  toFixed2 :: "real \<Rightarrow> string"
  toISOString :: "real \<Rightarrow> string"
  JSON_stringify :: "jsval \<Rightarrow> string"
  JSON_stringify_2 :: "jsval \<Rightarrow> string"
  Date_of_other :: "jsval \<Rightarrow> string option"
  replace_supabase_host :: "string \<Rightarrow> string"
  ToString_raises :: "jsval \<Rightarrow> bool"
  JSON_stringify_raises :: "jsval \<Rightarrow> bool"
  exception_object :: "js_exception \<Rightarrow> jsval"
  minus_double :: "real \<Rightarrow> real \<Rightarrow> real"

text \<open>\<open>String(v)\<close> and \<open>`${v}`\<close>.\<close>

fun String_of :: "host \<Rightarrow> jsval \<Rightarrow> string" where
  "String_of h (Str s) = s"
| "String_of h Undefined = ''undefined''"
| "String_of h Null = ''null''"
| "String_of h (Bool b) = (if b then ''true'' else ''false'')"
| "String_of h v = ToString h v"

definition nl :: string where
  "nl = [CHR 0x0A]"

text \<open>\<open>xs.join(sep)\<close> on strings.\<close>

fun join :: "string \<Rightarrow> string list \<Rightarrow> string" where
  "join sep [] = []"
| "join sep [x] = x"
| "join sep (x # y # ys) = x @ sep @ join sep (y # ys)"

section \<open>Environment classifier (environment.ts)\<close>

record process_env =
  NEXT_PUBLIC_VERCEL_ENV :: "string option"
  NODE_ENV :: "string option"

text \<open>\<open>a || b\<close> on an environment variable: unset and the empty string are falsy.\<close>

definition or_else :: "string option \<Rightarrow> string \<Rightarrow> string" where
  "or_else a b = (case a of None \<Rightarrow> b | Some s \<Rightarrow> if s = [] then b else s)"

text \<open>
  \<open>window\<close> is \<open>None\<close> where \<open>typeof window === "undefined"\<close>, and the value of
  \<open>window.location.hostname\<close> otherwise. The casts \<open>as Environment\<close> check nothing, so
  the result is a string.
\<close>

definition getEnvironment :: "process_env \<Rightarrow> string option \<Rightarrow> string" where
  "getEnvironment penv window =
     (case window of
        None \<Rightarrow>
          or_else (NEXT_PUBLIC_VERCEL_ENV penv) (or_else (NODE_ENV penv) ''development'')
      | Some hostname \<Rightarrow>
          if hostname = ''localhost'' then ''development'' else ''production'')"

definition Environment :: "string set" where
  "Environment = {''development'', ''preview'', ''production''}"

section \<open>The logger (environment.ts, class SupabaseLogger)\<close>

datatype LogLevel = Info | Warn | Error | Debug

record SupabaseLog =
  timestamp :: int
  level :: LogLevel
  operation :: string
  details :: "(string \<times> jsval) list option"
  duration :: "real option"
  error :: "jsval option"
  environment :: string

text \<open>
  The calls made on the console: \<open>console.log(s)\<close>, \<open>console.error(s)\<close> and
  \<open>console.error(s, e)\<close> with a caught exception.
\<close>

datatype console_call =
    ConsoleLog string
  | ConsoleError string
  | ConsoleErrorWith string js_exception

text \<open>
  The state the logger works on: its private \<open>logs\<close> array, the console (calls in the
  order they were made), and the two clocks it reads, \<open>Date.now()\<close> and
  \<open>performance.now()\<close>.
\<close>

record world =
  logs :: "SupabaseLog list"
  console :: "console_call list"
  date_now :: int
  perf_now :: real

definition MAX_LOGS :: nat where
  "MAX_LOGS = 1000"

definition icon :: string where
  "icon = [CHR 0xF0, CHR 0x9F, CHR 0x92, CHR 0xAB]"

fun levelIcons :: "LogLevel \<Rightarrow> string" where
  "levelIcons Info = [CHR 0xE2, CHR 0x84, CHR 0xB9, CHR 0xEF, CHR 0xB8, CHR 0x8F]"
| "levelIcons Warn = [CHR 0xE2, CHR 0x9A, CHR 0xA0, CHR 0xEF, CHR 0xB8, CHR 0x8F]"
| "levelIcons Error = [CHR 0xE2, CHR 0x9D, CHR 0x8C]"
| "levelIcons Debug = [CHR 0xF0, CHR 0x9F, CHR 0x94, CHR 0x8D]"

subsection \<open>sanitizeLogDetails\<close>

definition sensitive :: "string \<Rightarrow> bool" where
  "sensitive key =
     (includes_str key ''password'' \<or> includes_str key ''token'' \<or> includes_str key ''key''
      \<or> includes_str key ''secret'' \<or> includes_str key ''session'')"

definition REDACTED :: jsval where
  "REDACTED = Str ''[REDACTED]''"

text \<open>
  The loop over \<open>Object.entries(details)\<close>, with the object under construction as
  accumulator. (The guard on \<open>typeof details\<close> is excluded by the type \<open>LogDetails\<close>,
  an object.)
\<close>

fun sanitize_loop ::
  "process_env \<Rightarrow> (string \<times> jsval) list \<Rightarrow> (string \<times> jsval) list \<Rightarrow> (string \<times> jsval) list" where
  "sanitize_loop penv [] sanitized = sanitized"
| "sanitize_loop penv ((key, val) # rest) sanitized =
     (if \<not> startsWith key ''_'' \<and> val \<noteq> Undefined \<and> val \<noteq> Null then
        (if NODE_ENV penv = Some ''production'' \<and> sensitive key
         then sanitize_loop penv rest (obj_set sanitized key REDACTED)
         else sanitize_loop penv rest (obj_set sanitized key val))
      else sanitize_loop penv rest sanitized)"

definition sanitizeLogDetails :: "process_env \<Rightarrow> (string \<times> jsval) list \<Rightarrow> (string \<times> jsval) list" where
  "sanitizeLogDetails penv details' = sanitize_loop penv details' []"

subsection \<open>formatValue, formatError, formatLog\<close>

text \<open>
  The conversions that can raise, as the logger uses them: a template literal
  \<open>`${v}`\<close>, \<open>JSON.stringify(v)\<close> and \<open>JSON.stringify(v, null, 2)\<close>. On a primitive
  none of them raises.
\<close>

definition is_object :: "jsval \<Rightarrow> bool" where
  "is_object v = (typeof_object v \<and> v \<noteq> Null)"

definition template :: "host \<Rightarrow> jsval \<Rightarrow> js_exception + string" where
  "template h v =
     (if is_object v \<and> ToString_raises h v then Inl TypeError else Inr (String_of h v))"

definition stringify :: "host \<Rightarrow> jsval \<Rightarrow> js_exception + string" where
  "stringify h v =
     (if is_object v \<and> JSON_stringify_raises h v then Inl TypeError
      else Inr (JSON_stringify h v))"

definition stringify_2 :: "host \<Rightarrow> jsval \<Rightarrow> js_exception + string" where
  "stringify_2 h v =
     (if is_object v \<and> JSON_stringify_raises h v then Inl TypeError
      else Inr (JSON_stringify_2 h v))"

text \<open>The results of a list of evaluations in order: the first exception ends it.\<close>

fun all_ok :: "(js_exception + 'a) list \<Rightarrow> js_exception + 'a list" where
  "all_ok [] = Inr []"
| "all_ok (Inl e # rs) = Inl e"
| "all_ok (Inr x # rs) = (case all_ok rs of Inl e \<Rightarrow> Inl e | Inr xs \<Rightarrow> Inr (x # xs))"

fun formatValue :: "host \<Rightarrow> jsval \<Rightarrow> js_exception + string" where
  "formatValue h (Arr vs) =
     (case all_ok (map (formatValue h) vs) of
        Inl e \<Rightarrow> Inl e
      | Inr ss \<Rightarrow> Inr (''['' @ join '', '' ss @ '']''))"
| "formatValue h (Obj kvs) = stringify_2 h (Obj kvs)"
| "formatValue h (ErrorObj m s own) = stringify_2 h (ErrorObj m s own)"
| "formatValue h (HostObject n) = stringify_2 h (HostObject n)"
| "formatValue h v = Inr (String_of h v)"

fun formatError :: "host \<Rightarrow> jsval \<Rightarrow> jsval" where
  "formatError h (ErrorObj m s own) = Obj (spread [(''message'', Str m), (''stack'', s)] own)"
| "formatError h (Obj kvs) = Obj kvs"
| "formatError h (Arr vs) = Arr vs"
| "formatError h (HostObject n) = HostObject n"
| "formatError h v = Obj [(''message'', Str (String_of h v))]"

text \<open>
  The loop of \<open>formatLog\<close> over the entries of the sanitized details, with the message
  built so far.
\<close>

fun details_lines :: "host \<Rightarrow> (string \<times> jsval) list \<Rightarrow> string \<Rightarrow> js_exception + string" where
  "details_lines h [] message = Inr message"
| "details_lines h ((key, val) # rest) message =
     (if val \<noteq> Undefined \<and> val \<noteq> Null
      then (case formatValue h val of
              Inl e \<Rightarrow> Inl e
            | Inr text \<Rightarrow> details_lines h rest (message @ nl @ ''    '' @ key @ '': '' @ text))
      else details_lines h rest message)"

definition format_details ::
  "host \<Rightarrow> process_env \<Rightarrow> (string \<times> jsval) list \<Rightarrow> string \<Rightarrow> js_exception + string" where
  "format_details h penv d message =
     details_lines h (sanitizeLogDetails penv d) (message @ nl @ ''  Details:'')"

text \<open>
  One \<open>if (c) { message += `\n    label${text}` }\<close> of the error part, and one step
  after another.
\<close>

definition add_line :: "bool \<Rightarrow> string \<Rightarrow> js_exception + string \<Rightarrow> string \<Rightarrow> js_exception + string" where
  "add_line c label text message =
     (if c then (case text of Inl e \<Rightarrow> Inl e | Inr t \<Rightarrow> Inr (message @ nl @ label @ t))
      else Inr message)"

definition and_then ::
  "js_exception + 'a \<Rightarrow> ('a \<Rightarrow> js_exception + 'b) \<Rightarrow> js_exception + 'b" where
  "and_then r f = (case r of Inl e \<Rightarrow> Inl e | Inr x \<Rightarrow> f x)"

definition format_error :: "host \<Rightarrow> process_env \<Rightarrow> jsval \<Rightarrow> string \<Rightarrow> js_exception + string" where
  "format_error h penv e message =
     and_then (add_line (truthy (get_prop e ''message'')) ''    Message: ''
                 (template h (get_prop e ''message'')) (message @ nl @ ''  Error:''))
     (\<lambda>m1. and_then (add_line (truthy (get_prop e ''code'')) ''    Code: ''
                 (template h (get_prop e ''code'')) m1)
     (\<lambda>m2. and_then (add_line (truthy (get_prop e ''details'')) ''    Details: ''
                 (stringify h (get_prop e ''details'')) m2)
     (\<lambda>m3. and_then (add_line (truthy (get_prop e ''hint'')) ''    Hint: ''
                 (template h (get_prop e ''hint'')) m3)
     (\<lambda>m4. add_line (NODE_ENV penv = Some ''development'' \<and> truthy (get_prop e ''stack''))
                 ''    Stack: '' (template h (get_prop e ''stack'')) m4))))"

definition formatLog :: "host \<Rightarrow> process_env \<Rightarrow> SupabaseLog \<Rightarrow> js_exception + string" where
  "formatLog h penv lg =
     (let message =
            icon @ '' ['' @ toISOString h (of_int (timestamp lg)) @ ''] ''
            @ levelIcons (level lg) @ '' Supabase.'' @ operation lg
            @ (case duration lg of Some d \<Rightarrow> '' ('' @ toFixed2 h d @ ''ms)'' | None \<Rightarrow> [])
      in and_then (case details lg of
                     Some d \<Rightarrow> format_details h penv d message
                   | None \<Rightarrow> Inr message)
           (\<lambda>message'. case error lg of
                          Some e \<Rightarrow> format_error h penv e message'
                        | None \<Rightarrow> Inr message'))"

subsection \<open>log, getLogs, clearLogs\<close>

text \<open>
  The record that the method \<open>log\<close> builds (the method is \<open>logger_log\<close> below).
  \<open>details || undefined\<close> keeps an object (objects are truthy);
  \<open>error ? formatError(error) : undefined\<close> and \<open>duration || undefined\<close> drop a falsy
  error and a zero duration.
\<close>

definition make_log ::
  "host \<Rightarrow> process_env \<Rightarrow> int \<Rightarrow> LogLevel \<Rightarrow> string \<Rightarrow> (string \<times> jsval) list option \<Rightarrow> jsval
   \<Rightarrow> real option \<Rightarrow> SupabaseLog" where
  "make_log h penv now lvl op det err dur =
     \<lparr> timestamp = now,
       level = lvl,
       operation = op,
       details = det,
       duration = (case dur of None \<Rightarrow> None | Some d \<Rightarrow> if d = 0 then None else Some d),
       error = (if truthy err then Some (formatError h err) else None),
       environment = or_else (NODE_ENV penv) ''development'' \<rparr>"

text \<open>\<open>this.logs.unshift(log)\<close>, then \<open>pop()\<close> when the length exceeds \<open>MAX_LOGS\<close>.\<close>

definition unshift_pop :: "SupabaseLog \<Rightarrow> SupabaseLog list \<Rightarrow> SupabaseLog list" where
  "unshift_pop r ls = (let ls' = r # ls in if length ls' > MAX_LOGS then butlast ls' else ls')"

text \<open>
  The method \<open>log\<close>. The record is built before the test of \<open>NODE_ENV\<close>. In
  development the store is updated first; \<open>console.log(this.formatLog(log))\<close> comes
  after, and an exception of \<open>formatLog\<close> leaves \<open>log\<close> with the store updated and
  nothing on the console.
\<close>

definition logger_log ::
  "host \<Rightarrow> process_env \<Rightarrow> LogLevel \<Rightarrow> string \<Rightarrow> (string \<times> jsval) list option \<Rightarrow> jsval
   \<Rightarrow> real option \<Rightarrow> world \<Rightarrow> (js_exception + unit) \<times> world" where
  "logger_log h penv lvl op det err dur w =
     (let r = make_log h penv (date_now w) lvl op det err dur
      in if NODE_ENV penv = Some ''development''
         then (let w' = w\<lparr> logs := unshift_pop r (logs w) \<rparr>
               in case formatLog h penv r of
                    Inl e \<Rightarrow> (Inl e, w')
                  | Inr text \<Rightarrow> (Inr (), w'\<lparr> console := console w' @ [ConsoleLog text] \<rparr>))
         else (Inr (), w))"

text \<open>
  \<open>xs.slice(0, end)\<close> for an integral \<open>end\<close>: a negative \<open>end\<close> counts from the back.
\<close>

definition slice0 :: "'a list \<Rightarrow> int \<Rightarrow> 'a list" where
  "slice0 xs end' =
     (let len = int (length xs);
          final = (if end' < 0 then max (len + end') 0 else min end' len)
      in take (nat final) xs)"

text \<open>
  \<open>getLogs(limit = 100, level?)\<close>: an absent argument is \<open>None\<close>. The result is a new
  array; the world is returned as it was found.
\<close>

definition getLogs :: "int option \<Rightarrow> LogLevel option \<Rightarrow> world \<Rightarrow> SupabaseLog list \<times> world" where
  "getLogs limit lvl w =
     (let limit' = (case limit of None \<Rightarrow> 100 | Some n \<Rightarrow> n);
          filteredLogs = (case lvl of
                            None \<Rightarrow> logs w
                          | Some l \<Rightarrow> filter (\<lambda>lg. level lg = l) (logs w))
      in (slice0 filteredLogs limit', w))"

definition clearLogs :: "world \<Rightarrow> world" where
  "clearLogs w = w\<lparr> logs := [] \<rparr>"

subsection \<open>A sequence of calls to log\<close>

text \<open>
  The arguments of one call to \<open>log\<close>, with the reading of \<open>Date.now()\<close> at the
  moment of the call, and the run of a list of calls in order. An exception of one call
  goes to the caller of that call; the next call finds the world as the call left it.
\<close>

record log_args =
  call_time :: int
  call_level :: LogLevel
  call_operation :: string
  call_details :: "(string \<times> jsval) list option"
  call_error :: jsval
  call_duration :: "real option"

definition log_call ::
  "host \<Rightarrow> process_env \<Rightarrow> log_args \<Rightarrow> world \<Rightarrow> (js_exception + unit) \<times> world" where
  "log_call h penv c w =
     logger_log h penv (call_level c) (call_operation c) (call_details c) (call_error c)
       (call_duration c) (w\<lparr> date_now := call_time c \<rparr>)"

fun run_logs :: "host \<Rightarrow> process_env \<Rightarrow> log_args list \<Rightarrow> world \<Rightarrow> world" where
  "run_logs h penv [] w = w"
| "run_logs h penv (c # cs) w = run_logs h penv cs (snd (log_call h penv c w))"

definition record_of :: "host \<Rightarrow> process_env \<Rightarrow> log_args \<Rightarrow> SupabaseLog" where
  "record_of h penv c =
     make_log h penv (call_time c) (call_level c) (call_operation c) (call_details c)
       (call_error c) (call_duration c)"

subsection \<open>wrapClient\<close>

text \<open>
  What a call of a client method does, seen from the caller: it returns a value that is
  not a thenable, throws, or returns a promise that fulfils or rejects. A method is a
  function of its arguments and the world; the time it takes shows in \<open>perf_now\<close>.
  \<open>await\<close> of the call inside \<open>try\<close> gives the value or the raised error.
\<close>

datatype call_result = Returns jsval | Throws jsval | Resolves jsval | Rejects jsval

datatype settled = Fulfilled jsval | Rejected jsval

fun await :: "call_result \<Rightarrow> settled" where
  "await (Returns v) = Fulfilled v"
| "await (Throws e) = Rejected e"
| "await (Resolves v) = Fulfilled v"
| "await (Rejects e) = Rejected e"

datatype property =
    Method "jsval list \<Rightarrow> world \<Rightarrow> call_result \<times> world"
  | Value jsval

type_synonym client = "string \<Rightarrow> property option"

text \<open>
  The \<open>catch\<close> block of the \<open>apply\<close> trap, entered with the caught value: it logs
  and throws the caught value again, unless \<open>log\<close> raises, which then is what leaves
  the block.
\<close>

definition catch_block ::
  "host \<Rightarrow> process_env \<Rightarrow> string \<Rightarrow> jsval list \<Rightarrow> real \<Rightarrow> jsval \<Rightarrow> world
   \<Rightarrow> call_result \<times> world" where
  "catch_block h penv prop args startTime caught w =
     (case logger_log h penv Error prop (Some [(''arguments'', Arr args)]) caught
             (Some (minus_double h (perf_now w) startTime)) w of
        (Inl e, w') \<Rightarrow> (Rejects (exception_object h e), w')
      | (Inr u, w') \<Rightarrow> (Rejects caught, w'))"

text \<open>
  The \<open>apply\<close> trap, an async function: its own result is always a promise. The call
  of \<open>log\<close> on success stands inside \<open>try\<close>: an exception it raises is caught by
  the \<open>catch\<close> block like one of the method.
\<close>

definition apply_trap ::
  "host \<Rightarrow> process_env \<Rightarrow> string \<Rightarrow> (jsval list \<Rightarrow> world \<Rightarrow> call_result \<times> world)
   \<Rightarrow> jsval list \<Rightarrow> world \<Rightarrow> call_result \<times> world" where
  "apply_trap h penv prop target args w =
     (let startTime = perf_now w;
          (r, w1) = target args w
      in case await r of
           Fulfilled result \<Rightarrow>
             (case logger_log h penv Info prop
                     (Some [(''arguments'', Arr args), (''result'', opt_prop result ''data'')])
                     Undefined (Some (minus_double h (perf_now w1) startTime)) w1 of
                (Inr u, w2) \<Rightarrow> (Resolves result, w2)
              | (Inl e, w2) \<Rightarrow> catch_block h penv prop args startTime (exception_object h e) w2)
         | Rejected err \<Rightarrow> catch_block h penv prop args startTime err w1)"

text \<open>
  The \<open>get\<close> trap wraps a property that is a function and passes any other value
  (a missing property reads as \<open>undefined\<close>, here \<open>None\<close>) through.
\<close>

definition wrapClient :: "host \<Rightarrow> process_env \<Rightarrow> client \<Rightarrow> client" where
  "wrapClient h penv client =
     (if NODE_ENV penv \<noteq> Some ''development'' then client
      else (\<lambda>prop. case client prop of
                     Some (Method f) \<Rightarrow> Some (Method (apply_trap h penv prop f))
                   | v \<Rightarrow> v))"

text \<open>A call \<open>client[prop](...args)\<close>; \<open>None\<close> where the property is not a function.\<close>

definition invoke ::
  "client \<Rightarrow> string \<Rightarrow> jsval list \<Rightarrow> world \<Rightarrow> (call_result \<times> world) option" where
  "invoke client prop args w =
     (case client prop of Some (Method f) \<Rightarrow> Some (f args w) | _ \<Rightarrow> None)"

section \<open>The fetch override (instrumentation.ts, register, browser branch)\<close>

text \<open>
  The first argument of \<open>fetch\<close>: a string, a \<open>URL\<close> (its \<open>href\<close>) or a \<open>Request\<close>
  (its \<open>url\<close>). The second, \<open>init\<close>, is an object or \<open>undefined\<close>.
\<close>

datatype fetch_input = UrlString string | URLObject string | RequestObject string

fun url_of :: "fetch_input \<Rightarrow> string" where
  "url_of (UrlString s) = s"
| "url_of (URLObject href) = href"
| "url_of (RequestObject url) = url"

text \<open>
  What the override reads of a \<open>Response\<close>: \<open>ok\<close>, \<open>status\<close>, \<open>statusText\<close>,
  \<open>headers.get("content-type")\<close> (\<open>None\<close> for \<open>null\<close>) and what \<open>json()\<close> of its clone
  resolves to (\<open>None\<close> when it rejects).
\<close>

record fetch_response =
  resp_ok :: bool
  resp_status :: real
  resp_statusText :: string
  resp_content_type :: "string option"
  resp_json :: "jsval option"

datatype fetch_outcome = FetchResolved fetch_response | FetchRejected jsval

text \<open>
  The browser state the override touches: the calls made on the original \<open>fetch\<close>
  (oldest first), and how many times \<open>console\<close> has been replaced by a proxy whose
  \<open>error\<close> does nothing. The network answers the n-th call of the original \<open>fetch\<close>.
\<close>

record browser =
  fetch_calls :: "(fetch_input \<times> jsval) list"
  console_proxies :: nat

type_synonym network = "nat \<Rightarrow> fetch_input \<Rightarrow> jsval \<Rightarrow> fetch_outcome"

definition originalFetch ::
  "network \<Rightarrow> fetch_input \<Rightarrow> jsval \<Rightarrow> browser \<Rightarrow> fetch_outcome \<times> browser" where
  "originalFetch net input init b =
     (net (length (fetch_calls b)) input init,
      b\<lparr> fetch_calls := fetch_calls b @ [(input, init)] \<rparr>)"

text \<open>
  The readings of \<open>performance.now()\<close> before and after the original call, and of
  \<open>Date.now()\<close> in \<open>sendToServer\<close>.
\<close>

record clock =
  perf_start :: real
  perf_end :: real
  date :: int

text \<open>
  \<open>sendToServer(log)\<close> calls the global \<open>fetch\<close>, which is the override itself, with
  these two arguments, and swallows whatever comes of it.
\<close>

definition sendToServer_request :: "host \<Rightarrow> int \<Rightarrow> (string \<times> jsval) list \<Rightarrow> fetch_input \<times> jsval" where
  "sendToServer_request h now lg =
     (UrlString ''/api/traces'',
      Obj [(''method'', Str ''POST''),
           (''headers'', Obj [(''Content-Type'', Str ''application/json'')]),
           (''body'', Str (JSON_stringify h
              (Arr [Obj (spread lg [(''timestamp'', Num (of_int now)),
                                    (''environment'', Str ''client'')])])))])"

definition method_or_GET :: "jsval \<Rightarrow> jsval" where
  "method_or_GET init =
     (let m = opt_prop init ''method'' in if truthy m then m else Str ''GET'')"

definition http_error_event :: "host \<Rightarrow> string \<Rightarrow> jsval \<Rightarrow> real \<Rightarrow> fetch_response \<Rightarrow> jsval \<Rightarrow> (string \<times> jsval) list" where
  "http_error_event h url init dur response responseData =
     [(''name'', Str ''Supabase.error''),
      (''level'', Str ''error''),
      (''duration'', Num dur),
      (''attributes'', Obj
         [(''url'', Str (replace_supabase_host h url)),
          (''method'', method_or_GET init),
          (''status'', Num (resp_status response)),
          (''statusText'', Str (resp_statusText response)),
          (''error'', responseData)])]"

definition network_error_event :: "host \<Rightarrow> string \<Rightarrow> jsval \<Rightarrow> jsval \<Rightarrow> (string \<times> jsval) list" where
  "network_error_event h url init err =
     [(''name'', Str ''Supabase.error''),
      (''level'', Str ''error''),
      (''attributes'', Obj
         [(''url'', Str (replace_supabase_host h url)),
          (''method'', method_or_GET init),
          (''error'', get_prop err ''message''),
          (''stack'', get_prop err ''stack'')])]"

definition read_json :: "fetch_response \<Rightarrow> jsval" where
  "read_json response =
     (case resp_content_type response of
        None \<Rightarrow> Undefined
      | Some ct \<Rightarrow>
          if includes_str ct ''application/json''
          then (case resp_json response of Some d \<Rightarrow> d | None \<Rightarrow> Undefined)
          else Undefined)"

definition proxy_console :: "browser \<Rightarrow> browser" where
  "proxy_console b = b\<lparr> console_proxies := Suc (console_proxies b) \<rparr>"

text \<open>
  The function assigned to \<open>window.fetch\<close>. In the \<open>catch\<close> block, reading
  \<open>error.message\<close> of a rejection with \<open>undefined\<close> or \<open>null\<close> raises a TypeError in
  place of the rejection.
\<close>

function window_fetch ::
  "network \<Rightarrow> host \<Rightarrow> clock \<Rightarrow> fetch_input \<Rightarrow> jsval \<Rightarrow> browser \<Rightarrow> fetch_outcome \<times> browser" where
  "window_fetch net h clk input init b =
     (let url = url_of input in
      if includes_str url ''supabase.co'' then
        (case originalFetch net input init b of
           (FetchResolved response, b1) \<Rightarrow>
             (let dur = minus_double h (perf_end clk) (perf_start clk);
                  responseData = read_json response
              in if \<not> resp_ok response then
                   (let b2 = proxy_console b1;
                        req = sendToServer_request h (date clk)
                                (http_error_event h url init dur response responseData)
                    in (FetchResolved response,
                        snd (window_fetch net h clk (fst req) (snd req) b2)))
                 else (FetchResolved response, b1))
         | (FetchRejected err, b1) \<Rightarrow>
             (let b2 = proxy_console b1 in
              if err = Undefined \<or> err = Null
              then (FetchRejected (exception_object h TypeError), b2)
              else (let req = sendToServer_request h (date clk)
                                (network_error_event h url init err)
                    in (FetchRejected err,
                        snd (window_fetch net h clk (fst req) (snd req) b2)))))
      else originalFetch net input init b)"
  by pat_completeness auto
termination
proof (relation "measure (\<lambda>(net, h, clk, input, init, b).
                   if includes_str (url_of input) ''supabase.co'' then 1 else 0)")
  show "wf (measure (\<lambda>(net, h, clk, input, init, b).
                   if includes_str (url_of input) ''supabase.co'' then 1 else (0::nat)))"
    by simp
qed (simp_all add: sendToServer_request_def startsWith_def)

section \<open>The ingest endpoint (api/traces/route.ts)\<close>

text \<open>
  \<open>new Date(v).toISOString()\<close>. A number beyond 8.64e15 in absolute value is no time
  value, and \<open>toISOString\<close> raises RangeError on the invalid date; \<open>undefined\<close> converts
  to NaN, \<open>null\<close> to 0 and a boolean to 0 or 1; a string is parsed, and an object
  converted to a string first, by the host.
\<close>

definition Date_toISOString :: "host \<Rightarrow> jsval \<Rightarrow> js_exception + string" where
  "Date_toISOString h v =
     (case v of
        Num t \<Rightarrow> if \<bar>t\<bar> \<le> 8640000000000000 then Inr (toISOString h t) else Inl RangeError
      | Undefined \<Rightarrow> Inl RangeError
      | Null \<Rightarrow> Inr (toISOString h 0)
      | Bool b \<Rightarrow> Inr (toISOString h (if b then 1 else 0))
      | _ \<Rightarrow> (case Date_of_other h v of Some s \<Rightarrow> Inr s | None \<Rightarrow> Inl RangeError))"

text \<open>
  \<open>trace.duration.toFixed(2)\<close> under \<open>if (trace.duration)\<close>: only a number has
  \<open>toFixed\<close>.
\<close>

definition duration_suffix :: "host \<Rightarrow> jsval \<Rightarrow> js_exception + string" where
  "duration_suffix h d =
     (if truthy d
      then (case d of Num x \<Rightarrow> Inr ('' ('' @ toFixed2 h x @ ''ms)'') | _ \<Rightarrow> Inl TypeError)
      else Inr [])"

definition attributes_lines :: "host \<Rightarrow> jsval \<Rightarrow> string" where
  "attributes_lines h a =
     (if truthy (opt_prop a ''method'')
      then nl @ ''  Request: '' @ String_of h (get_prop a ''method'') @ '' ''
           @ String_of h (get_prop a ''url'') else [])
     @ (if truthy (opt_prop a ''status'')
        then nl @ ''  Status: '' @ String_of h (get_prop a ''status'') @ '' ''
             @ String_of h (get_prop a ''statusText'') else [])
     @ (if truthy (opt_prop a ''error'')
        then nl @ ''  Error: ''
             @ (if typeof_object (get_prop a ''error'')
                then JSON_stringify_2 h (get_prop a ''error'')
                else String_of h (get_prop a ''error'')) else [])
     @ (if truthy (opt_prop a ''stack'')
        then nl @ ''  Stack: '' @ String_of h (get_prop a ''stack'') else [])"

definition formatSupabaseError :: "host \<Rightarrow> jsval \<Rightarrow> js_exception + string" where
  "formatSupabaseError h trace =
     (case Date_toISOString h (get_prop trace ''timestamp'') of
        Inl e \<Rightarrow> Inl e
      | Inr timestamp' \<Rightarrow>
          (case duration_suffix h (get_prop trace ''duration'') of
             Inl e \<Rightarrow> Inl e
           | Inr dur \<Rightarrow>
               Inr (icon @ '' ['' @ timestamp' @ ''] Supabase Error:'' @ dur
                    @ attributes_lines h (get_prop trace ''attributes''))))"

text \<open>
  \<open>trace.name.startsWith("Supabase.")\<close>: TypeError unless \<open>trace\<close> is neither
  \<open>undefined\<close> nor \<open>null\<close> and its \<open>name\<close> is a string.
\<close>

definition name_startsWith_Supabase :: "jsval \<Rightarrow> js_exception + bool" where
  "name_startsWith_Supabase trace =
     (if trace = Undefined \<or> trace = Null then Inl TypeError
      else (case get_prop trace ''name'' of
              Str name \<Rightarrow> Inr (startsWith name ''Supabase.'')
            | _ \<Rightarrow> Inl TypeError))"

text \<open>
  \<open>traces.forEach(...)\<close>, with the console calls made so far; an exception ends it.
\<close>

fun forEach_trace ::
  "host \<Rightarrow> jsval list \<Rightarrow> console_call list \<Rightarrow> (js_exception + unit) \<times> console_call list" where
  "forEach_trace h [] out = (Inr (), out)"
| "forEach_trace h (trace # rest) out =
     (case name_startsWith_Supabase trace of
        Inl e \<Rightarrow> (Inl e, out)
      | Inr False \<Rightarrow> forEach_trace h rest out
      | Inr True \<Rightarrow>
          (case formatSupabaseError h trace of
             Inl e \<Rightarrow> (Inl e, out)
           | Inr message \<Rightarrow> forEach_trace h rest (out @ [ConsoleError message])))"

record http_response =
  status :: nat
  body :: jsval

definition invalid_trace_data :: "js_exception \<Rightarrow> console_call list \<Rightarrow> http_response \<times> console_call list" where
  "invalid_trace_data e out =
     (\<lparr> status = 400, body = Obj [(''error'', Str ''Invalid trace data'')] \<rparr>,
      out @ [ConsoleErrorWith ''Error processing traces:'' e])"

text \<open>
  \<open>POST(request)\<close>. The argument is what \<open>request.json()\<close> resolves to, \<open>None\<close> when
  the body is not JSON (a SyntaxError); the result is the response and the console calls
  made. Only an array has \<open>forEach\<close>.
\<close>

definition POST :: "host \<Rightarrow> jsval option \<Rightarrow> http_response \<times> console_call list" where
  "POST h request_json =
     (case request_json of
        None \<Rightarrow> invalid_trace_data SyntaxError []
      | Some (Arr traces) \<Rightarrow>
          (case forEach_trace h traces [] of
             (Inl e, out) \<Rightarrow> invalid_trace_data e out
           | (Inr u, out) \<Rightarrow> (\<lparr> status = 200, body = Obj [(''ok'', Bool True)] \<rparr>, out))
      | Some v \<Rightarrow> invalid_trace_data TypeError [])"

text \<open>The interfaces \<open>TraceAttributes\<close> and \<open>TraceEvent\<close>, as predicates on a value.\<close>

fun is_string :: "jsval \<Rightarrow> bool" where
  "is_string (Str s) = True"
| "is_string v = False"

fun is_number :: "jsval \<Rightarrow> bool" where
  "is_number (Num n) = True"
| "is_number v = False"

fun is_record :: "jsval \<Rightarrow> bool" where
  "is_record (Obj kvs) = True"
| "is_record v = False"

definition optional :: "(jsval \<Rightarrow> bool) \<Rightarrow> jsval \<Rightarrow> bool" where
  "optional P v = (v = Undefined \<or> P v)"

definition is_TraceAttributes :: "jsval \<Rightarrow> bool" where
  "is_TraceAttributes a =
     (is_record a
      \<and> optional is_string (get_prop a ''method'')
      \<and> optional is_string (get_prop a ''url'')
      \<and> optional is_number (get_prop a ''status'')
      \<and> optional is_string (get_prop a ''statusText'')
      \<and> optional (\<lambda>e. is_string e \<or> is_record e) (get_prop a ''error'')
      \<and> optional is_string (get_prop a ''stack''))"

definition is_TraceEvent :: "jsval \<Rightarrow> bool" where
  "is_TraceEvent t =
     (is_record t
      \<and> is_string (get_prop t ''name'')
      \<and> optional is_number (get_prop t ''duration'')
      \<and> optional is_TraceAttributes (get_prop t ''attributes'')
      \<and> optional is_string (get_prop t ''level'')
      \<and> (get_prop t ''environment'' = Str ''client'' \<or> get_prop t ''environment'' = Str ''server'')
      \<and> is_number (get_prop t ''timestamp''))"

section \<open>Notions used in the statements\<close>

text \<open>What the sanitizer's loop does with one entry: whether it keeps it, and as what.\<close>

definition kept :: "string \<times> jsval \<Rightarrow> bool" where
  "kept e = (\<not> startsWith (fst e) ''_'' \<and> snd e \<noteq> Undefined \<and> snd e \<noteq> Null)"

definition redact :: "process_env \<Rightarrow> string \<times> jsval \<Rightarrow> string \<times> jsval" where
  "redact penv e =
     (if NODE_ENV penv = Some ''production'' \<and> sensitive (fst e) then (fst e, REDACTED) else e)"

text \<open>
  The records that the \<open>apply\<close> trap has \<open>log\<close> build, after a call with \<open>args\<close>
  that began in the world \<open>w\<close> and left the world \<open>w1\<close>: on success with \<open>result\<close>,
  and on failure with \<open>err\<close>. \<open>elapsed\<close> is the difference of the two readings of
  \<open>performance.now()\<close>.
\<close>

definition elapsed :: "host \<Rightarrow> world \<Rightarrow> world \<Rightarrow> real" where
  "elapsed h w w1 = minus_double h (perf_now w1) (perf_now w)"

definition success_record ::
  "host \<Rightarrow> process_env \<Rightarrow> string \<Rightarrow> jsval list \<Rightarrow> jsval \<Rightarrow> world \<Rightarrow> world \<Rightarrow> SupabaseLog" where
  "success_record h penv prop args result w w1 =
     make_log h penv (date_now w1) Info prop
       (Some [(''arguments'', Arr args), (''result'', opt_prop result ''data'')])
       Undefined (Some (elapsed h w w1))"

definition failure_record ::
  "host \<Rightarrow> process_env \<Rightarrow> string \<Rightarrow> jsval list \<Rightarrow> jsval \<Rightarrow> world \<Rightarrow> world \<Rightarrow> SupabaseLog" where
  "failure_record h penv prop args err w w1 =
     make_log h penv (date_now w1) Error prop (Some [(''arguments'', Arr args)])
       err (Some (elapsed h w w1))"

text \<open>An environment variable that \<open>||\<close> skips: unset or empty.\<close>

definition falsy_var :: "string option \<Rightarrow> bool" where
  "falsy_var a = (a = None \<or> a = Some [])"

text \<open>An environment variable that is unset, empty, or one of the three labels.\<close>

definition holds_label :: "string option \<Rightarrow> bool" where
  "holds_label a = (case a of None \<Rightarrow> True | Some s \<Rightarrow> s = [] \<or> s \<in> Environment)"

text \<open>
  A trace event whose name starts with \<open>Supabase.\<close>, one that is an error (its level),
  one whose timestamp is a time value, and the console call the endpoint makes for it.
\<close>

definition supabase_named :: "jsval \<Rightarrow> bool" where
  "supabase_named t =
     (case get_prop t ''name'' of Str name \<Rightarrow> startsWith name ''Supabase.'' | _ \<Rightarrow> False)"

definition is_error_event :: "jsval \<Rightarrow> bool" where
  "is_error_event t = (get_prop t ''level'' = Str ''error'')"

definition in_Date_range :: "jsval \<Rightarrow> bool" where
  "in_Date_range t =
     (case get_prop t ''timestamp'' of Num x \<Rightarrow> \<bar>x\<bar> \<le> 8640000000000000 | _ \<Rightarrow> False)"

definition diagnostic :: "host \<Rightarrow> jsval \<Rightarrow> console_call" where
  "diagnostic h t =
     (case formatSupabaseError h t of Inr message \<Rightarrow> ConsoleError message
                                   | Inl e \<Rightarrow> ConsoleErrorWith [] e)"

section \<open>Concrete inputs\<close>

definition plain_host :: host where
  "plain_host =
     \<lparr> ToString = (\<lambda>v. ''[value]''),
       toFixed2 = (\<lambda>x. ''0.00''),
       toISOString = (\<lambda>t. ''1970-01-01T00:00:00.000Z''),
       JSON_stringify = (\<lambda>v. ''{}''),
       JSON_stringify_2 = (\<lambda>v. ''{}''),
       Date_of_other = (\<lambda>v. None),
       replace_supabase_host = (\<lambda>s. s),
       ToString_raises = (\<lambda>v. v = Obj [(''toString'', Null)]),
       JSON_stringify_raises = (\<lambda>v. v = HostObject 0),
       exception_object = (\<lambda>e. ErrorObj ''raised by the runtime'' Undefined []),
       minus_double = (\<lambda>a b. a - b) \<rparr>"

definition dev_env :: process_env where
  "dev_env = \<lparr> NEXT_PUBLIC_VERCEL_ENV = None, NODE_ENV = Some ''development'' \<rparr>"

definition prod_env :: process_env where
  "prod_env = \<lparr> NEXT_PUBLIC_VERCEL_ENV = None, NODE_ENV = Some ''production'' \<rparr>"

definition test_env :: process_env where
  "test_env = \<lparr> NEXT_PUBLIC_VERCEL_ENV = None, NODE_ENV = Some ''test'' \<rparr>"

definition staging_env :: process_env where
  "staging_env =
     \<lparr> NEXT_PUBLIC_VERCEL_ENV = Some ''preview'', NODE_ENV = Some ''development'' \<rparr>"

definition preview_env :: process_env where
  "preview_env = \<lparr> NEXT_PUBLIC_VERCEL_ENV = Some ''preview'', NODE_ENV = Some ''production'' \<rparr>"

definition bare_env :: process_env where
  "bare_env = \<lparr> NEXT_PUBLIC_VERCEL_ENV = None, NODE_ENV = None \<rparr>"

definition fresh_world :: world where
  "fresh_world = \<lparr> logs = [], console = [], date_now = 0, perf_now = 0 \<rparr>"

definition nth_call :: "nat \<Rightarrow> log_args" where
  "nth_call i =
     \<lparr> call_time = int i, call_level = Info, call_operation = ''select'',
       call_details = None, call_error = Undefined, call_duration = None \<rparr>"

text \<open>
  Client methods. \<open>from\<close> returns a value, not a promise, at once. \<open>ping\<close> resolves
  and \<open>rpc\<close> rejects with an \<open>Error\<close> between two equal readings of the clock.
  \<open>select\<close> resolves after 5 ms, \<open>abort\<close> rejects with \<open>undefined\<close> after 2 ms,
  \<open>insert\<close> rejects with an \<open>Error\<close> after 3 ms, \<open>removeChannel\<close> resolves after
  1 ms, and \<open>signIn\<close> rejects after 1 ms with an object whose \<open>message\<close> cannot be
  converted to a string.
\<close>

definition from_method :: "jsval list \<Rightarrow> world \<Rightarrow> call_result \<times> world" where
  "from_method args w = (Returns (Num 1), w)"

definition ping_method :: "jsval list \<Rightarrow> world \<Rightarrow> call_result \<times> world" where
  "ping_method args w = (Resolves (Obj [(''data'', Num 1)]), w)"

definition select_method :: "jsval list \<Rightarrow> world \<Rightarrow> call_result \<times> world" where
  "select_method args w =
     (Resolves (Obj [(''data'', Num 1)]), w\<lparr> perf_now := perf_now w + 5 \<rparr>)"

definition rpc_method :: "jsval list \<Rightarrow> world \<Rightarrow> call_result \<times> world" where
  "rpc_method args w = (Rejects (ErrorObj ''boom'' (Str ''at rpc'') []), w)"

definition abort_method :: "jsval list \<Rightarrow> world \<Rightarrow> call_result \<times> world" where
  "abort_method args w = (Rejects Undefined, w\<lparr> perf_now := perf_now w + 2 \<rparr>)"

definition insert_method :: "jsval list \<Rightarrow> world \<Rightarrow> call_result \<times> world" where
  "insert_method args w =
     (Rejects (ErrorObj ''denied'' Undefined []), w\<lparr> perf_now := perf_now w + 3 \<rparr>)"

definition removeChannel_method :: "jsval list \<Rightarrow> world \<Rightarrow> call_result \<times> world" where
  "removeChannel_method args w = (Resolves (Str ''ok''), w\<lparr> perf_now := perf_now w + 1 \<rparr>)"

definition signIn_method :: "jsval list \<Rightarrow> world \<Rightarrow> call_result \<times> world" where
  "signIn_method args w =
     (Rejects (Obj [(''message'', Obj [(''toString'', Null)])]),
      w\<lparr> perf_now := perf_now w + 1 \<rparr>)"

definition demo_client :: client where
  "demo_client =
     [''from'' \<mapsto> Method from_method,
      ''ping'' \<mapsto> Method ping_method,
      ''select'' \<mapsto> Method select_method,
      ''rpc'' \<mapsto> Method rpc_method,
      ''abort'' \<mapsto> Method abort_method,
      ''insert'' \<mapsto> Method insert_method,
      ''removeChannel'' \<mapsto> Method removeChannel_method,
      ''signIn'' \<mapsto> Method signIn_method,
      ''auth'' \<mapsto> Value (Obj [])]"

definition demo_details :: "(string \<times> jsval) list" where
  "demo_details =
     [(''_internal'', Num 1), (''access_token'', Str ''abc''), (''table'', Str ''users''),
      (''filter'', Null), (''Token'', Str ''xyz'')]"

definition store3 :: world where
  "store3 =
     fresh_world\<lparr> logs :=
       [make_log plain_host dev_env 300 Error ''c'' None Undefined None,
        make_log plain_host dev_env 200 Info ''b'' None Undefined None,
        make_log plain_host dev_env 100 Error ''a'' None Undefined None] \<rparr>"

text \<open>
  Trace events: a failed request as the browser sends it, an event of another origin, a
  non-error event under a \<open>Supabase.\<close> name, and an error event with a timestamp that
  is no date.
\<close>

definition error_event :: jsval where
  "error_event =
     Obj [(''name'', Str ''Supabase.error''), (''level'', Str ''error''),
          (''duration'', Num 12),
          (''attributes'', Obj [(''url'', Str ''[SUPABASE_URL]/rest/v1/t''),
                                (''method'', Str ''GET''), (''status'', Num 500),
                                (''statusText'', Str ''Internal Server Error'')]),
          (''timestamp'', Num 1700000000000), (''environment'', Str ''client'')]"

definition other_event :: jsval where
  "other_event =
     Obj [(''name'', Str ''pageview''), (''level'', Str ''info''),
          (''timestamp'', Num 1700000000001), (''environment'', Str ''client'')]"

definition note_event :: jsval where
  "note_event =
     Obj [(''name'', Str ''Supabase.note''), (''level'', Str ''info''),
          (''timestamp'', Num 1700000000002), (''environment'', Str ''server'')]"

definition late_event :: jsval where
  "late_event =
     Obj [(''name'', Str ''Supabase.error''), (''level'', Str ''error''),
          (''timestamp'', Num 10000000000000000), (''environment'', Str ''client'')]"

definition quiet_network :: network where
  "quiet_network n input init =
     FetchResolved \<lparr> resp_ok = True, resp_status = 200, resp_statusText = ''OK'',
                     resp_content_type = None, resp_json = None \<rparr>"

definition idle_browser :: browser where
  "idle_browser = \<lparr> fetch_calls = [], console_proxies = 0 \<rparr>"

definition some_clock :: clock where
  "some_clock = \<lparr> perf_start = 10, perf_end = 15, date = 1700000000000 \<rparr>"

section \<open>The log store\<close>

lemma unshift_pop_take:
  "length ls \<le> MAX_LOGS \<Longrightarrow> unshift_pop r ls = take MAX_LOGS (r # ls)"
  by (cases "length ls = MAX_LOGS") (simp_all add: unshift_pop_def butlast_conv_take)

lemma unshift_pop_front:
  "unshift_pop r ls = r # (if length ls < MAX_LOGS then ls else butlast ls)"
  by (cases ls) (auto simp: unshift_pop_def MAX_LOGS_def Let_def)

lemma hd_unshift_pop: "hd (unshift_pop r ls) = r \<and> unshift_pop r ls \<noteq> []"
  by (simp add: unshift_pop_front)

text \<open>What \<open>log\<close> does to the store in development, whether \<open>formatLog\<close> raises or not.\<close>

lemma logs_logger_log_dev:
  "NODE_ENV penv = Some ''development'' \<Longrightarrow>
   logs (snd (logger_log h penv lvl op det err dur w))
     = unshift_pop (make_log h penv (date_now w) lvl op det err dur) (logs w)"
  by (simp add: logger_log_def Let_def split: sum.splits)

lemma logs_logger_log:
  "NODE_ENV penv = Some ''development'' \<Longrightarrow> length (logs w) \<le> MAX_LOGS \<Longrightarrow>
   logs (snd (logger_log h penv lvl op det err dur w))
     = take MAX_LOGS (make_log h penv (date_now w) lvl op det err dur # logs w)"
  by (simp add: logs_logger_log_dev unshift_pop_take)

lemma logs_log_call:
  "NODE_ENV penv = Some ''development'' \<Longrightarrow> length (logs w) \<le> MAX_LOGS \<Longrightarrow>
   logs (snd (log_call h penv c w)) = take MAX_LOGS (record_of h penv c # logs w)"
  by (simp add: log_call_def record_of_def logs_logger_log)

lemma take_append_take: "take n (xs @ take n ys) = take n (xs @ ys)"
  by (simp add: min_def)

text \<open>
  The store after a run of calls, from any store within the bound: the records of the
  calls, newest first, before what the store held, cut at \<open>MAX_LOGS\<close>.
\<close>

lemma logs_run_logs:
  "NODE_ENV penv = Some ''development'' \<Longrightarrow> length (logs w) \<le> MAX_LOGS \<Longrightarrow>
   logs (run_logs h penv cs w) = take MAX_LOGS (rev (map (record_of h penv) cs) @ logs w)"
proof (induction cs arbitrary: w)
  case Nil
  then show ?case by simp
next
  case (Cons c cs)
  let ?w = "snd (log_call h penv c w)"
  have step: "logs ?w = take MAX_LOGS (record_of h penv c # logs w)"
    using Cons.prems by (simp add: logs_log_call)
  then have "length (logs ?w) \<le> MAX_LOGS" by simp
  with Cons have "logs (run_logs h penv cs ?w) =
      take MAX_LOGS (rev (map (record_of h penv) cs) @ logs ?w)" by blast
  then show ?case by (simp add: step take_append_take)
qed

text \<open>
  Claim C1. In development, after N calls to \<open>log\<close> with N above \<open>MAX_LOGS\<close>, on a
  store within its bound (as the empty store of a new logger is, and as \<open>log\<close> keeps
  it), the store holds exactly \<open>MAX_LOGS\<close> records: the records of the last
  \<open>MAX_LOGS\<close> calls, the newest at the front.
\<close>

theorem log_keeps_last_MAX_LOGS_newest_first:
  assumes "NODE_ENV penv = Some ''development''"
    and "length (logs w) \<le> MAX_LOGS"
    and "length calls > MAX_LOGS"
  shows "length (logs (run_logs h penv calls w)) = MAX_LOGS
       \<and> logs (run_logs h penv calls w)
           = rev (drop (length calls - MAX_LOGS) (map (record_of h penv) calls))"
  using assms by (simp add: logs_run_logs take_rev)

theorem log_keeps_last_MAX_LOGS_newest_first_witness:
  "NODE_ENV dev_env = Some ''development''
   \<and> length (logs fresh_world) \<le> MAX_LOGS
   \<and> length (map nth_call [0..<1001]) > MAX_LOGS
   \<and> length (logs (run_logs plain_host dev_env (map nth_call [0..<1001]) fresh_world)) = MAX_LOGS
   \<and> logs (run_logs plain_host dev_env (map nth_call [0..<1001]) fresh_world)
       = rev (drop (length (map nth_call [0..<1001]) - MAX_LOGS)
               (map (record_of plain_host dev_env) (map nth_call [0..<1001])))"
proof -
  have a: "NODE_ENV dev_env = Some ''development''" by (simp add: dev_env_def)
  have b: "length (logs fresh_world) \<le> MAX_LOGS" by (simp add: fresh_world_def)
  have c: "length (map nth_call [0..<1001]) > MAX_LOGS" by (simp add: MAX_LOGS_def)
  from log_keeps_last_MAX_LOGS_newest_first[OF a b c, of plain_host] a b c
  show ?thesis by blast
qed

text \<open>
  Claim C10. In development, a call to \<open>log\<close> with duration 0 appends a record that has
  no duration, and has the same outcome and leaves the same state as the call without a
  duration.
\<close>

theorem log_zero_duration_is_absent:
  "NODE_ENV penv = Some ''development'' \<Longrightarrow>
     logs (snd (logger_log h penv lvl op det err (Some 0) w)) \<noteq> []
   \<and> duration (hd (logs (snd (logger_log h penv lvl op det err (Some 0) w)))) = None
   \<and> logger_log h penv lvl op det err (Some 0) w = logger_log h penv lvl op det err None w"
proof -
  assume dev: "NODE_ENV penv = Some ''development''"
  have same: "make_log h penv (date_now w) lvl op det err (Some 0)
                = make_log h penv (date_now w) lvl op det err None"
    by (simp add: make_log_def)
  have none: "duration (make_log h penv (date_now w) lvl op det err (Some 0)) = None"
    by (simp add: make_log_def)
  have eq: "logger_log h penv lvl op det err (Some 0) w = logger_log h penv lvl op det err None w"
    by (simp add: logger_log_def same)
  have store: "logs (snd (logger_log h penv lvl op det err (Some 0) w))
                 = unshift_pop (make_log h penv (date_now w) lvl op det err (Some 0)) (logs w)"
    using dev by (rule logs_logger_log_dev)
  show ?thesis
    unfolding store using none eq by (simp add: hd_unshift_pop)
qed

theorem log_zero_duration_is_absent_witness:
  "NODE_ENV dev_env = Some ''development''
   \<and> map duration (logs (snd (logger_log plain_host dev_env Info ''select'' None Undefined
                                 (Some 0) fresh_world))) = [None]
   \<and> logger_log plain_host dev_env Info ''select'' None Undefined (Some 0) fresh_world
       = logger_log plain_host dev_env Info ''select'' None Undefined None fresh_world"
proof -
  have a: "NODE_ENV dev_env = Some ''development''" by (simp add: dev_env_def)
  have one: "length (logs (snd (logger_log plain_host dev_env Info ''select'' None Undefined
                                  (Some 0) fresh_world))) = 1"
    using a by (simp add: logs_logger_log fresh_world_def MAX_LOGS_def)
  from log_zero_duration_is_absent[OF a, of plain_host Info "''select''" None Undefined fresh_world]
    a one
  show ?thesis
    by (cases "logs (snd (logger_log plain_host dev_env Info ''select'' None Undefined (Some 0)
                            fresh_world))") simp_all
qed

section \<open>The query\<close>

lemma slice0_take: "\<exists>n. slice0 xs e = take n xs"
  by (auto simp: slice0_def Let_def)

lemma slice0_nonneg: "0 \<le> e \<Longrightarrow> slice0 xs e = take (nat e) xs"
  by (auto simp: slice0_def Let_def min_def)

text \<open>
  Claim C8. \<open>getLogs\<close> leaves the store as it is; with a level filter it returns only
  records of that level, as a prefix of the store's records of that level in the
  store's order; the prefix has the length of the limit (a count, so not negative), 100
  when no limit is given.
\<close>

theorem getLogs_filters_keeps_order_truncates:
  "snd (getLogs limit lvl w) = w
   \<and> (\<forall>r \<in> set (fst (getLogs limit (Some l) w)). level r = l)
   \<and> (\<exists>k. fst (getLogs limit (Some l) w) = take k (filter (\<lambda>r. level r = l) (logs w)))
   \<and> (0 \<le> n \<longrightarrow>
        fst (getLogs (Some n) (Some l) w) = take (nat n) (filter (\<lambda>r. level r = l) (logs w)))
   \<and> fst (getLogs None (Some l) w) = take 100 (filter (\<lambda>r. level r = l) (logs w))"
proof -
  have a: "snd (getLogs limit lvl w) = w" by (simp add: getLogs_def Let_def)
  have c: "\<exists>k. fst (getLogs limit (Some l) w) = take k (filter (\<lambda>r. level r = l) (logs w))"
    by (simp add: getLogs_def Let_def slice0_take)
  then obtain m where
    m: "fst (getLogs limit (Some l) w) = take m (filter (\<lambda>r. level r = l) (logs w))" ..
  have b: "\<forall>r \<in> set (fst (getLogs limit (Some l) w)). level r = l"
    unfolding m by (auto dest: in_set_takeD)
  have d: "0 \<le> n \<longrightarrow>
      fst (getLogs (Some n) (Some l) w) = take (nat n) (filter (\<lambda>r. level r = l) (logs w))"
    by (simp add: getLogs_def Let_def slice0_nonneg)
  have e: "fst (getLogs None (Some l) w) = take 100 (filter (\<lambda>r. level r = l) (logs w))"
    by (simp add: getLogs_def Let_def slice0_nonneg)
  from a b c d e show ?thesis by blast
qed

theorem getLogs_filters_keeps_order_truncates_witness:
  "(0::int) \<le> 1
   \<and> snd (getLogs (Some 1) (Some Error) store3) = store3
   \<and> map level (fst (getLogs None (Some Error) store3)) = [Error, Error]
   \<and> map timestamp (fst (getLogs None (Some Error) store3)) = [300, 100]
   \<and> map timestamp (fst (getLogs (Some 1) (Some Error) store3)) = [300]"
proof -
  have f: "filter (\<lambda>r. level r = Error) (logs store3)
            = [make_log plain_host dev_env 300 Error ''c'' None Undefined None,
               make_log plain_host dev_env 100 Error ''a'' None Undefined None]"
    by (simp add: store3_def make_log_def)
  from getLogs_filters_keeps_order_truncates[of "Some 1" "Some Error" store3 Error 1]
    getLogs_filters_keeps_order_truncates[of None "Some Error" store3 Error 1]
  show ?thesis by (simp add: f make_log_def)
qed

text \<open>The example of the specification: timestamps 100, 200, 300 appended, limit 2.\<close>

lemma getLogs_example: "map timestamp (fst (getLogs (Some 2) None store3)) = [300, 200]"
  by (simp add: getLogs_def slice0_def store3_def make_log_def)

section \<open>The sanitizer\<close>

lemma obj_set_fresh: "k \<notin> fst ` set kvs \<Longrightarrow> obj_set kvs k v = kvs @ [(k, v)]"
  by (induction kvs) auto

lemma fst_redact: "fst (redact penv e) = fst e"
  by (simp add: redact_def)

text \<open>
  On the entries of an object (no key twice) the loop never overwrites: it is a filter
  followed by a map.
\<close>

lemma sanitize_loop_distinct:
  "distinct (map fst es) \<Longrightarrow> fst ` set es \<inter> fst ` set acc = {} \<Longrightarrow>
   sanitize_loop penv es acc = acc @ map (redact penv) (filter kept es)"
proof (induction es arbitrary: acc)
  case Nil
  then show ?case by simp
next
  case (Cons e es)
  obtain k v where e: "e = (k, v)" by (cases e)
  have fresh: "k \<notin> fst ` set acc" using Cons.prems e by auto
  have d: "distinct (map fst es)" using Cons.prems by simp
  have disj: "\<And>v'. fst ` set es \<inter> fst ` set (acc @ [(k, v')]) = {}"
    using Cons.prems e by auto
  have disj0: "fst ` set es \<inter> fst ` set acc = {}"
    using Cons.prems by auto
  show ?case
  proof (cases "kept e")
    case True
    then show ?thesis
      using Cons.IH[OF d disj] fresh e
      by (simp add: kept_def redact_def obj_set_fresh)
  next
    case False
    then show ?thesis
      using Cons.IH[OF d disj0] e by (auto simp: kept_def)
  qed
qed

lemma sanitize_distinct:
  "distinct (map fst d) \<Longrightarrow> sanitizeLogDetails penv d = map (redact penv) (filter kept d)"
  by (simp add: sanitizeLogDetails_def sanitize_loop_distinct)

lemma kept_eq: "kept = (\<lambda>(k, v). \<not> startsWith k ''_'' \<and> v \<noteq> Undefined \<and> v \<noteq> Null)"
  by (auto simp: kept_def fun_eq_iff)

text \<open>
  Claim C4. On the entries of a details object, \<open>sanitizeLogDetails\<close> keeps, in order,
  exactly the keys that have no leading underscore and a value other than \<open>undefined\<close>
  and \<open>null\<close>; under \<open>NODE_ENV\<close> \<open>production\<close> every key of the result whose name
  contains password, token, key, secret or session (as written, case-sensitive) has the
  marker \<open>[REDACTED]\<close> as value; under \<open>development\<close> the kept entries have their
  original values.
\<close>

theorem sanitizeLogDetails_drops_and_redacts:
  assumes "distinct (map fst d)"
  shows "map fst (sanitizeLogDetails penv d)
           = map fst (filter (\<lambda>(k, v). \<not> startsWith k ''_'' \<and> v \<noteq> Undefined \<and> v \<noteq> Null) d)
       \<and> (NODE_ENV penv = Some ''production'' \<longrightarrow>
            (\<forall>(k, v) \<in> set (sanitizeLogDetails penv d). sensitive k \<longrightarrow> v = REDACTED))
       \<and> (NODE_ENV penv = Some ''development'' \<longrightarrow>
            sanitizeLogDetails penv d
              = filter (\<lambda>(k, v). \<not> startsWith k ''_'' \<and> v \<noteq> Undefined \<and> v \<noteq> Null) d)"
proof -
  have a: "map fst (sanitizeLogDetails penv d)
           = map fst (filter (\<lambda>(k, v). \<not> startsWith k ''_'' \<and> v \<noteq> Undefined \<and> v \<noteq> Null) d)"
    using assms by (simp add: sanitize_distinct kept_eq[symmetric] fst_redact cong: map_cong)
  have b: "NODE_ENV penv = Some ''production'' \<longrightarrow>
           (\<forall>(k, v) \<in> set (sanitizeLogDetails penv d). sensitive k \<longrightarrow> v = REDACTED)"
    using assms by (auto simp: sanitize_distinct redact_def)
  have c: "NODE_ENV penv = Some ''development'' \<longrightarrow>
           sanitizeLogDetails penv d
             = filter (\<lambda>(k, v). \<not> startsWith k ''_'' \<and> v \<noteq> Undefined \<and> v \<noteq> Null) d"
    using assms by (simp add: sanitize_distinct kept_eq[symmetric] redact_def cong: map_cong)
  from a b c show ?thesis by blast
qed

lemma sensitive_access_token: "sensitive ''access_token''"
  by (simp add: sensitive_def startsWith_def)

lemma not_sensitive_table: "\<not> sensitive ''table''"
  by (simp add: sensitive_def startsWith_def)

lemma not_sensitive_Token: "\<not> sensitive ''Token''"
  by (simp add: sensitive_def startsWith_def)

theorem sanitizeLogDetails_drops_and_redacts_witness:
  "distinct (map fst demo_details)
   \<and> NODE_ENV prod_env = Some ''production''
   \<and> NODE_ENV dev_env = Some ''development''
   \<and> sanitizeLogDetails prod_env demo_details
       = [(''access_token'', REDACTED), (''table'', Str ''users''), (''Token'', Str ''xyz'')]
   \<and> sanitizeLogDetails dev_env demo_details
       = [(''access_token'', Str ''abc''), (''table'', Str ''users''), (''Token'', Str ''xyz'')]"
proof -
  have a: "distinct (map fst demo_details)" by (simp add: demo_details_def)
  have p: "NODE_ENV prod_env = Some ''production''" by (simp add: prod_env_def)
  have d: "NODE_ENV dev_env = Some ''development''" by (simp add: dev_env_def)
  have v: "sanitizeLogDetails prod_env demo_details
       = [(''access_token'', REDACTED), (''table'', Str ''users''), (''Token'', Str ''xyz'')]"
    by (simp add: sanitizeLogDetails_def demo_details_def prod_env_def startsWith_def
        sensitive_access_token not_sensitive_table not_sensitive_Token)
  from sanitizeLogDetails_drops_and_redacts[OF a, of prod_env]
    sanitizeLogDetails_drops_and_redacts[OF a, of dev_env] a p d v
  show ?thesis by (simp add: demo_details_def startsWith_def)
qed

section \<open>The environment classifier\<close>

text \<open>
  Claim C9, as stated, fails: on the server the value of an environment variable is
  returned as it is, whatever it holds. With \<open>NODE_ENV\<close> \<open>test\<close> and no deployment
  variable the result is \<open>test\<close>, none of the three labels.
\<close>

theorem getEnvironment_test_counterexample:
  "getEnvironment test_env None = ''test'' \<and> getEnvironment test_env None \<notin> Environment"
  by (simp add: getEnvironment_def or_else_def Environment_def test_env_def)

text \<open>
  Claim C9, amended. On a server-side context \<open>getEnvironment\<close> returns the deployment
  variable when it is set and not empty, else \<open>NODE_ENV\<close> when it is set and not empty,
  else \<open>development\<close>; this is one of the three labels whenever the variables that are
  set hold one of them. On a client-side context it returns \<open>development\<close> if and only
  if the hostname is \<open>localhost\<close>, else \<open>production\<close>.
\<close>

theorem getEnvironment_classifies:
  "(\<not> falsy_var (NEXT_PUBLIC_VERCEL_ENV penv) \<longrightarrow>
       Some (getEnvironment penv None) = NEXT_PUBLIC_VERCEL_ENV penv)
   \<and> (falsy_var (NEXT_PUBLIC_VERCEL_ENV penv) \<and> \<not> falsy_var (NODE_ENV penv) \<longrightarrow>
       Some (getEnvironment penv None) = NODE_ENV penv)
   \<and> (falsy_var (NEXT_PUBLIC_VERCEL_ENV penv) \<and> falsy_var (NODE_ENV penv) \<longrightarrow>
       getEnvironment penv None = ''development'')
   \<and> (holds_label (NEXT_PUBLIC_VERCEL_ENV penv) \<and> holds_label (NODE_ENV penv) \<longrightarrow>
       getEnvironment penv None \<in> Environment)
   \<and> (getEnvironment penv (Some hostname) = ''development'' \<longleftrightarrow> hostname = ''localhost'')
   \<and> (hostname \<noteq> ''localhost'' \<longrightarrow> getEnvironment penv (Some hostname) = ''production'')
   \<and> getEnvironment penv (Some hostname) \<in> Environment"
  by (auto simp: getEnvironment_def or_else_def Environment_def falsy_var_def holds_label_def
      split: option.splits)

theorem getEnvironment_classifies_witness:
  "\<not> falsy_var (NEXT_PUBLIC_VERCEL_ENV preview_env)
   \<and> getEnvironment preview_env None = ''preview''
   \<and> falsy_var (NEXT_PUBLIC_VERCEL_ENV prod_env) \<and> \<not> falsy_var (NODE_ENV prod_env)
   \<and> getEnvironment prod_env None = ''production''
   \<and> falsy_var (NEXT_PUBLIC_VERCEL_ENV bare_env) \<and> falsy_var (NODE_ENV bare_env)
   \<and> getEnvironment bare_env None = ''development''
   \<and> holds_label (NEXT_PUBLIC_VERCEL_ENV preview_env) \<and> holds_label (NODE_ENV preview_env)
   \<and> getEnvironment preview_env None \<in> Environment
   \<and> ''127.0.0.1'' \<noteq> ''localhost''
   \<and> getEnvironment bare_env (Some ''127.0.0.1'') = ''production''
   \<and> getEnvironment bare_env (Some ''localhost'') = ''development''"
proof -
  have a: "\<not> falsy_var (NEXT_PUBLIC_VERCEL_ENV preview_env)"
    "falsy_var (NEXT_PUBLIC_VERCEL_ENV prod_env)" "\<not> falsy_var (NODE_ENV prod_env)"
    "falsy_var (NEXT_PUBLIC_VERCEL_ENV bare_env)" "falsy_var (NODE_ENV bare_env)"
    "holds_label (NEXT_PUBLIC_VERCEL_ENV preview_env)" "holds_label (NODE_ENV preview_env)"
    by (simp_all add: falsy_var_def holds_label_def preview_env_def prod_env_def bare_env_def
        Environment_def)
  have v: "NEXT_PUBLIC_VERCEL_ENV preview_env = Some ''preview''"
    "NODE_ENV prod_env = Some ''production''"
    by (simp_all add: preview_env_def prod_env_def)
  from getEnvironment_classifies[of preview_env "''localhost''"]
    getEnvironment_classifies[of prod_env "''localhost''"]
    getEnvironment_classifies[of bare_env "''127.0.0.1''"]
    getEnvironment_classifies[of bare_env "''localhost''"] a v
  show ?thesis by (simp add: Environment_def)
qed

section \<open>The wrapped client\<close>

subsection \<open>The example host and the example client\<close>

lemma plain_host_ops:
  "JSON_stringify_raises plain_host v = (v = HostObject 0)"
  "ToString_raises plain_host v = (v = Obj [(''toString'', Null)])"
  "minus_double plain_host a b = a - b"
  "exception_object plain_host e = ErrorObj ''raised by the runtime'' Undefined []"
  by (simp_all add: plain_host_def)

lemma formatLog_bare:
  "details lg = None \<Longrightarrow> error lg = None \<Longrightarrow> \<exists>text. formatLog h penv lg = Inr text"
  by (simp add: formatLog_def and_then_def Let_def)

lemma add_line_Inr: "add_line c label (Inr t) message = Inr (if c then message @ nl @ label @ t else message)"
  by (simp add: add_line_def)

lemma add_line_False: "add_line False label text message = Inr message"
  by (simp add: add_line_def)

lemma and_then_Inr: "and_then (Inr x) f = f x"
  by (simp add: and_then_def)

lemma and_then_Inl: "and_then (Inl e) f = Inl e"
  by (simp add: and_then_def)

lemma sanitize_arguments_only:
  "sanitizeLogDetails penv [(''arguments'', Arr args)] = [(''arguments'', Arr args)]"
  by (simp add: sanitizeLogDetails_def startsWith_def sensitive_def)

lemma sanitize_arguments_result:
  "sanitizeLogDetails penv [(''arguments'', Arr args), (''result'', v)]
     = (if v \<noteq> Undefined \<and> v \<noteq> Null then [(''arguments'', Arr args), (''result'', v)]
        else [(''arguments'', Arr args)])"
  by (simp add: sanitizeLogDetails_def startsWith_def sensitive_def)

lemma dev_envs: "NODE_ENV dev_env = Some ''development''" "NODE_ENV staging_env = Some ''development''"
  by (simp_all add: dev_env_def staging_env_def)

lemma demo_methods:
  "demo_client ''from'' = Some (Method from_method)"
  "demo_client ''ping'' = Some (Method ping_method)"
  "demo_client ''select'' = Some (Method select_method)"
  "demo_client ''rpc'' = Some (Method rpc_method)"
  "demo_client ''abort'' = Some (Method abort_method)"
  "demo_client ''insert'' = Some (Method insert_method)"
  "demo_client ''removeChannel'' = Some (Method removeChannel_method)"
  "demo_client ''signIn'' = Some (Method signIn_method)"
  by (simp_all add: demo_client_def)

lemma format_success_data:
  "\<exists>shown. formatLog plain_host penv
     (success_record plain_host penv op [] (Obj [(''data'', Num 1)]) w w1) = Inr shown"
  "\<exists>shown. formatLog plain_host penv
     (success_record plain_host penv op [Str a] (Obj [(''data'', Num 1)]) w w1) = Inr shown"
  by (simp_all add: formatLog_def success_record_def make_log_def format_details_def
      sanitize_arguments_result opt_prop_def and_then_def Let_def)



subsection \<open>What the trap does, path by path\<close>


lemma catch_block_raises:
  assumes "NODE_ENV penv = Some ''development''"
    and "formatLog h penv
           (make_log h penv (date_now w1) Error prop (Some [(''arguments'', Arr args)]) e
              (Some (minus_double h (perf_now w1) t0))) = Inl ex"
  shows "catch_block h penv prop args t0 e w1
       = (Rejects (exception_object h ex),
          w1\<lparr> logs := unshift_pop
                  (make_log h penv (date_now w1) Error prop (Some [(''arguments'', Arr args)]) e
                     (Some (minus_double h (perf_now w1) t0))) (logs w1) \<rparr>)"
  using assms by (simp add: catch_block_def logger_log_def Let_def)

lemma apply_trap_resolves:
  assumes "NODE_ENV penv = Some ''development''"
    and "f args w = (r, w1)" and "await r = Fulfilled v"
    and "formatLog h penv (success_record h penv prop args v w w1) = Inr shown"
  shows "apply_trap h penv prop f args w
       = (Resolves v,
          w1\<lparr> logs := unshift_pop (success_record h penv prop args v w w1) (logs w1),
              console := console w1 @ [ConsoleLog shown] \<rparr>)"
  using assms
  by (simp add: apply_trap_def logger_log_def success_record_def elapsed_def Let_def)

lemma apply_trap_log_raises:
  assumes "NODE_ENV penv = Some ''development''"
    and "f args w = (r, w1)" and "await r = Fulfilled v"
    and "formatLog h penv (success_record h penv prop args v w w1) = Inl ex"
  shows "apply_trap h penv prop f args w
       = catch_block h penv prop args (perf_now w) (exception_object h ex)
           (w1\<lparr> logs := unshift_pop (success_record h penv prop args v w w1) (logs w1) \<rparr>)"
  using assms
  by (simp add: apply_trap_def logger_log_def success_record_def elapsed_def Let_def)


lemma apply_trap_rejects_log_raises:
  assumes "NODE_ENV penv = Some ''development''"
    and "f args w = (r, w1)" and "await r = Rejected e"
    and "formatLog h penv (failure_record h penv prop args e w w1) = Inl ex"
  shows "apply_trap h penv prop f args w
       = (Rejects (exception_object h ex),
          w1\<lparr> logs := unshift_pop (failure_record h penv prop args e w w1) (logs w1) \<rparr>)"
  using assms
  by (simp add: apply_trap_def catch_block_raises failure_record_def elapsed_def)

lemma invoke_wrapped:
  "NODE_ENV penv = Some ''development'' \<Longrightarrow> client prop = Some (Method f) \<Longrightarrow>
   invoke (wrapClient h penv client) prop args w = Some (apply_trap h penv prop f args w)"
  by (simp add: invoke_def wrapClient_def)

lemma record_fields:
  "level (success_record h penv prop args v w w1) = Info"
  "operation (success_record h penv prop args v w w1) = prop"
  "duration (success_record h penv prop args v w w1)
     = (if elapsed h w w1 = 0 then None else Some (elapsed h w w1))"
  "level (failure_record h penv prop args e w w1) = Error"
  "operation (failure_record h penv prop args e w w1) = prop"
  "details (failure_record h penv prop args e w w1) = Some [(''arguments'', Arr args)]"
  "error (failure_record h penv prop args e w w1)
     = (if truthy e then Some (formatError h e) else None)"
  "duration (failure_record h penv prop args e w w1)
     = (if elapsed h w w1 = 0 then None else Some (elapsed h w w1))"
  by (simp_all add: success_record_def failure_record_def make_log_def)







subsection \<open>Where the wrapped call differs from the call\<close>

text \<open>
  The amended claims C2 and C3 say nothing of the calls below, on which the trap changes
  what the caller gets. A method that returns a value that is no promise: the wrapped
  call returns a promise of it.
\<close>

lemma wrapped_synchronous_method:
  "(case invoke demo_client ''from'' [] fresh_world of
      Some (r, w1) \<Rightarrow> r = Returns (Num 1) | None \<Rightarrow> False)
   \<and> (case invoke (wrapClient plain_host dev_env demo_client) ''from'' [] fresh_world of
      Some (r, w2) \<Rightarrow> r = Resolves (Num 1) | None \<Rightarrow> False)"
proof -
  have f: "\<exists>shown. formatLog plain_host dev_env
      (success_record plain_host dev_env ''from'' [] (Num 1) fresh_world fresh_world) = Inr shown"
    by (simp add: formatLog_def success_record_def make_log_def format_details_def
        sanitize_arguments_result opt_prop_def and_then_def Let_def)
  then obtain shown where f: "formatLog plain_host dev_env
      (success_record plain_host dev_env ''from'' [] (Num 1) fresh_world fresh_world) = Inr shown" ..
  have m: "from_method [] fresh_world = (Returns (Num 1), fresh_world)"
    by (simp add: from_method_def)
  have aw: "await (Returns (Num 1)) = Fulfilled (Num 1)" by simp
  have plain: "(case invoke demo_client ''from'' [] fresh_world of
      Some (r, w1) \<Rightarrow> r = Returns (Num 1) | None \<Rightarrow> False)"
    by (simp add: invoke_def demo_methods from_method_def)
  have wrapped: "(case invoke (wrapClient plain_host dev_env demo_client) ''from'' [] fresh_world of
      Some (r, w2) \<Rightarrow> r = Resolves (Num 1) | None \<Rightarrow> False)"
    using apply_trap_resolves[of dev_env from_method "[]" fresh_world _ fresh_world _
            plain_host "''from''" shown, OF dev_envs(1) m aw f]
    by (simp add: invoke_wrapped dev_envs demo_methods)
  from plain wrapped show ?thesis by blast
qed

text \<open>
  A method that fulfils, called with an argument that \<open>JSON.stringify\<close> cannot
  serialise: \<open>formatLog\<close> raises inside \<open>try\<close> after the info record is stored, the
  \<open>catch\<close> block stores an error record and \<open>formatLog\<close> raises again, and the wrapped
  call rejects with the TypeError.
\<close>

lemma wrapped_call_with_channel_argument:
  "(case invoke demo_client ''removeChannel'' [HostObject 0] fresh_world of
      Some (r, w1) \<Rightarrow> r = Resolves (Str ''ok'') | None \<Rightarrow> False)
   \<and> (case invoke (wrapClient plain_host dev_env demo_client) ''removeChannel'' [HostObject 0]
             fresh_world of
      Some (r, w2) \<Rightarrow> r = Rejects (exception_object plain_host TypeError)
                      \<and> map level (logs w2) = [Error, Info] \<and> console w2 = []
    | None \<Rightarrow> False)"
proof -
  let ?w1 = "fresh_world\<lparr> perf_now := 1 \<rparr>"
  let ?rec = "success_record plain_host dev_env ''removeChannel'' [HostObject 0] (Str ''ok'')
                fresh_world ?w1"
  let ?w2 = "?w1\<lparr> logs := unshift_pop ?rec (logs ?w1) \<rparr>"
  have f: "formatLog plain_host dev_env ?rec = Inl TypeError"
    by (simp add: formatLog_def success_record_def make_log_def format_details_def
        sanitize_arguments_result opt_prop_def and_then_def Let_def stringify_2_def
        is_object_def plain_host_ops)
  have m: "removeChannel_method [HostObject 0] fresh_world = (Resolves (Str ''ok''), ?w1)"
    by (simp add: removeChannel_method_def fresh_world_def)
  have aw: "await (Resolves (Str ''ok'')) = Fulfilled (Str ''ok'')" by simp
  have g: "formatLog plain_host dev_env
             (make_log plain_host dev_env (date_now ?w2) Error ''removeChannel''
                (Some [(''arguments'', Arr [HostObject 0])])
                (exception_object plain_host TypeError)
                (Some (minus_double plain_host (perf_now ?w2) (perf_now fresh_world))))
           = Inl TypeError"
    by (simp add: formatLog_def make_log_def format_details_def sanitize_arguments_only
        and_then_def Let_def stringify_2_def is_object_def plain_host_ops)
  have plain: "(case invoke demo_client ''removeChannel'' [HostObject 0] fresh_world of
      Some (r, w1) \<Rightarrow> r = Resolves (Str ''ok'') | None \<Rightarrow> False)"
    by (simp add: invoke_def demo_methods removeChannel_method_def)
  have wrapped: "(case invoke (wrapClient plain_host dev_env demo_client) ''removeChannel''
             [HostObject 0] fresh_world of
      Some (r, w2) \<Rightarrow> r = Rejects (exception_object plain_host TypeError)
                      \<and> map level (logs w2) = [Error, Info] \<and> console w2 = []
    | None \<Rightarrow> False)"
    using apply_trap_log_raises[of dev_env removeChannel_method "[HostObject 0]" fresh_world _
            ?w1 _ plain_host "''removeChannel''" TypeError, OF dev_envs(1) m aw f]
      catch_block_raises[of dev_env plain_host ?w2 "''removeChannel''" "[HostObject 0]"
            "exception_object plain_host TypeError" "perf_now fresh_world" TypeError,
            OF dev_envs(1) g]
    by (simp add: invoke_wrapped dev_envs demo_methods
        unshift_pop_front fresh_world_def record_fields make_log_def MAX_LOGS_def)
  from plain wrapped show ?thesis by blast
qed

text \<open>
  A method that rejects with an object whose \<open>message\<close> has no string conversion:
  \<open>formatLog\<close> raises inside \<open>catch\<close> before the rejection is thrown again, and the
  wrapped call rejects with the TypeError in place of the rejection.
\<close>

lemma wrapped_call_with_unprintable_error:
  "(case invoke demo_client ''signIn'' [] fresh_world of
      Some (r, w1) \<Rightarrow> r = Rejects (Obj [(''message'', Obj [(''toString'', Null)])])
    | None \<Rightarrow> False)
   \<and> (case invoke (wrapClient plain_host dev_env demo_client) ''signIn'' [] fresh_world of
      Some (r, w2) \<Rightarrow> r = Rejects (exception_object plain_host TypeError)
                      \<and> map level (logs w2) = [Error] \<and> console w2 = []
    | None \<Rightarrow> False)"
proof -
  let ?w1 = "fresh_world\<lparr> perf_now := 1 \<rparr>"
  let ?e = "Obj [(''message'', Obj [(''toString'', Null)])]"
  have f: "formatLog plain_host dev_env
             (failure_record plain_host dev_env ''signIn'' [] ?e fresh_world ?w1) = Inl TypeError"
    by (simp add: formatLog_def failure_record_def make_log_def format_details_def
        sanitize_arguments_only and_then_def Let_def format_error_def add_line_def
        template_def is_object_def plain_host_ops)
  have m: "signIn_method [] fresh_world = (Rejects ?e, ?w1)"
    by (simp add: signIn_method_def fresh_world_def)
  have aw: "await (Rejects ?e) = Rejected ?e" by simp
  have plain: "(case invoke demo_client ''signIn'' [] fresh_world of
      Some (r, w1) \<Rightarrow> r = Rejects (Obj [(''message'', Obj [(''toString'', Null)])])
    | None \<Rightarrow> False)"
    by (simp add: invoke_def demo_methods signIn_method_def)
  have wrapped: "(case invoke (wrapClient plain_host dev_env demo_client) ''signIn'' []
             fresh_world of
      Some (r, w2) \<Rightarrow> r = Rejects (exception_object plain_host TypeError)
                      \<and> map level (logs w2) = [Error] \<and> console w2 = []
    | None \<Rightarrow> False)"
    using apply_trap_rejects_log_raises[of dev_env signIn_method "[]" fresh_world _ ?w1 _
            plain_host "''signIn''" TypeError, OF dev_envs(1) m aw f]
    by (simp add: invoke_wrapped dev_envs demo_methods
        unshift_pop_front fresh_world_def record_fields)
  from plain wrapped show ?thesis by blast
qed

section \<open>The gate on the environment\<close>

text \<open>
  Claim C5, as stated, fails. The logger does not ask the classifier: it tests
  \<open>NODE_ENV\<close> alone. On a server with the deployment variable \<open>preview\<close> and
  \<open>NODE_ENV\<close> \<open>development\<close> the classified environment is \<open>preview\<close>, and in a
  browser under an address other than \<open>localhost\<close> it is \<open>production\<close>; in both,
  \<open>log\<close> appends to the store and writes on the console, and the wrapped client logs
  a call that the client itself does not log.
\<close>

theorem log_active_outside_classified_development_counterexample:
  "getEnvironment staging_env None = ''preview''
   \<and> map operation (logs (snd (logger_log plain_host staging_env Info ''select'' None Undefined
                                  None fresh_world))) = [''select'']
   \<and> length (console (snd (logger_log plain_host staging_env Info ''select'' None Undefined
                              None fresh_world))) = 1
   \<and> (case invoke demo_client ''select'' [] fresh_world of
        Some (r, w1) \<Rightarrow> logs w1 = [] | None \<Rightarrow> False)
   \<and> (case invoke (wrapClient plain_host staging_env demo_client) ''select'' [] fresh_world of
        Some (r, w2) \<Rightarrow> map operation (logs w2) = [''select''] | None \<Rightarrow> False)
   \<and> getEnvironment dev_env (Some ''127.0.0.1'') = ''production''
   \<and> map operation (logs (snd (logger_log plain_host dev_env Info ''select'' None Undefined
                                  None fresh_world))) = [''select'']"
proof -
  have a: "getEnvironment staging_env None = ''preview''"
    "getEnvironment dev_env (Some ''127.0.0.1'') = ''production''"
    by (simp_all add: getEnvironment_def or_else_def staging_env_def)
  have b: "map operation (logs (snd (logger_log plain_host penv Info ''select'' None Undefined
                                  None fresh_world))) = [''select'']"
    if "NODE_ENV penv = Some ''development''" for penv
    using that by (simp add: logs_logger_log_dev unshift_pop_front fresh_world_def make_log_def)
  have c: "length (console (snd (logger_log plain_host staging_env Info ''select'' None Undefined
                              None fresh_world))) = 1"
    by (simp add: logger_log_def dev_envs formatLog_def make_log_def and_then_def
        fresh_world_def Let_def)
  have d: "(case invoke demo_client ''select'' [] fresh_world of
        Some (r, w1) \<Rightarrow> logs w1 = [] | None \<Rightarrow> False)"
    by (simp add: invoke_def demo_methods select_method_def fresh_world_def)
  let ?w1 = "fresh_world\<lparr> perf_now := 5 \<rparr>"
  obtain shown where f: "formatLog plain_host staging_env
      (success_record plain_host staging_env ''select'' [] (Obj [(''data'', Num 1)])
         fresh_world ?w1) = Inr shown"
    using format_success_data(1) by blast
  have m: "select_method [] fresh_world = (Resolves (Obj [(''data'', Num 1)]), ?w1)"
    by (simp add: select_method_def fresh_world_def)
  have aw: "await (Resolves (Obj [(''data'', Num 1)])) = Fulfilled (Obj [(''data'', Num 1)])"
    by simp
  have e: "(case invoke (wrapClient plain_host staging_env demo_client) ''select'' []
                  fresh_world of
        Some (r, w2) \<Rightarrow> map operation (logs w2) = [''select''] | None \<Rightarrow> False)"
    using apply_trap_resolves[of staging_env select_method "[]" fresh_world _ ?w1 _
            plain_host "''select''" shown, OF dev_envs(2) m aw f]
    by (simp add: invoke_wrapped dev_envs demo_methods unshift_pop_front fresh_world_def
        record_fields)
  from a b[OF dev_envs(2)] b[OF dev_envs(1)] c d e show ?thesis by simp
qed

text \<open>
  Claim C5, amended. Where \<open>NODE_ENV\<close> is not \<open>development\<close> (whatever the classifier
  returns), \<open>wrapClient\<close> returns the client it was given, and \<open>log\<close> returns without
  an exception and leaves the world it was given: nothing is appended to the store,
  \<open>formatLog\<close> is not run (on no host does its exception show) and nothing is written
  on the console. The record is built all the same, before the test.
\<close>

theorem inert_outside_development:
  "NODE_ENV penv \<noteq> Some ''development'' \<Longrightarrow>
     wrapClient h penv client = client
   \<and> logger_log h penv lvl op det err dur w = (Inr (), w)"
  by (simp add: wrapClient_def logger_log_def)

theorem inert_outside_development_witness:
  "NODE_ENV prod_env \<noteq> Some ''development''
   \<and> wrapClient plain_host prod_env demo_client = demo_client
   \<and> logger_log plain_host prod_env Error ''rpc'' (Some [(''channel'', HostObject 0)])
       (Str ''boom'') (Some 3) store3 = (Inr (), store3)"
proof -
  have a: "NODE_ENV prod_env \<noteq> Some ''development''" by (simp add: prod_env_def)
  from inert_outside_development[OF a, of plain_host demo_client Error "''rpc''"
         "Some [(''channel'', HostObject 0)]" "Str ''boom''" "Some 3" store3] a
  show ?thesis by blast
qed

section \<open>The fetch override\<close>

text \<open>
  Claim C6. For a call whose URL does not contain \<open>supabase.co\<close>, the override is the
  original \<open>fetch\<close>: the same outcome, one call of the original with the same two
  arguments, nothing sent to the ingest endpoint and the console left as it is.
\<close>

theorem window_fetch_delegates_other_urls:
  assumes "\<not> includes_str (url_of input) ''supabase.co''"
  shows "window_fetch net h clk input init b = originalFetch net input init b
       \<and> fst (window_fetch net h clk input init b) = net (length (fetch_calls b)) input init
       \<and> fetch_calls (snd (window_fetch net h clk input init b)) = fetch_calls b @ [(input, init)]
       \<and> console_proxies (snd (window_fetch net h clk input init b)) = console_proxies b"
proof -
  have "window_fetch net h clk input init b = originalFetch net input init b"
    using assms by (simp add: Let_def)
  then show ?thesis by (simp add: originalFetch_def)
qed

theorem window_fetch_delegates_other_urls_witness:
  "\<not> includes_str (url_of (URLObject ''https://example.com/data'')) ''supabase.co''
   \<and> window_fetch quiet_network plain_host some_clock (URLObject ''https://example.com/data'')
       Undefined idle_browser
       = originalFetch quiet_network (URLObject ''https://example.com/data'') Undefined idle_browser
   \<and> fetch_calls (snd (window_fetch quiet_network plain_host some_clock
         (URLObject ''https://example.com/data'') Undefined idle_browser))
       = [(URLObject ''https://example.com/data'', Undefined)]"
proof -
  have a: "\<not> includes_str (url_of (URLObject ''https://example.com/data'')) ''supabase.co''"
    by (simp add: startsWith_def)
  from window_fetch_delegates_other_urls[OF a, of quiet_network plain_host some_clock
         Undefined idle_browser] a
  show ?thesis by (simp add: idle_browser_def)
qed

section \<open>The ingest endpoint\<close>

lemma name_of_TraceEvent:
  "is_TraceEvent t \<Longrightarrow> name_startsWith_Supabase t = Inr (supabase_named t)"
  by (cases t; cases "get_prop t ''name''")
     (auto simp: is_TraceEvent_def name_startsWith_Supabase_def supabase_named_def)

lemma duration_suffix_optional_number:
  "optional is_number d \<Longrightarrow> \<exists>s. duration_suffix h d = Inr s"
  by (cases d) (auto simp: optional_def duration_suffix_def)

lemma format_of_TraceEvent:
  assumes "is_TraceEvent t" and "in_Date_range t"
  shows "\<exists>m. formatSupabaseError h t = Inr m"
proof -
  from assms(2) obtain x where x: "get_prop t ''timestamp'' = Num x" "\<bar>x\<bar> \<le> 8640000000000000"
    by (cases "get_prop t ''timestamp''") (auto simp: in_Date_range_def)
  from assms(1) have "optional is_number (get_prop t ''duration'')"
    by (simp add: is_TraceEvent_def)
  then obtain s where "duration_suffix h (get_prop t ''duration'') = Inr s"
    using duration_suffix_optional_number by blast
  with x show ?thesis
    by (simp add: formatSupabaseError_def Date_toISOString_def)
qed

lemma forEach_trace_TraceEvents:
  assumes "\<forall>t \<in> set ts. is_TraceEvent t"
    and "\<forall>t \<in> set ts. supabase_named t \<longrightarrow> in_Date_range t"
  shows "forEach_trace h ts out = (Inr (), out @ map (diagnostic h) (filter supabase_named ts))"
  using assms
proof (induction ts arbitrary: out)
  case Nil
  then show ?case by simp
next
  case (Cons t ts)
  have n: "name_startsWith_Supabase t = Inr (supabase_named t)"
    using Cons.prems(1) by (simp add: name_of_TraceEvent)
  have ih: "\<And>out'. forEach_trace h ts out'
              = (Inr (), out' @ map (diagnostic h) (filter supabase_named ts))"
    using Cons by simp
  show ?case
  proof (cases "supabase_named t")
    case True
    have "is_TraceEvent t" "in_Date_range t"
      using Cons.prems True by simp_all
    then obtain m where m: "formatSupabaseError h t = Inr m"
      using format_of_TraceEvent[of t h] by blast
    then have "diagnostic h t = ConsoleError m" by (simp add: diagnostic_def)
    with True n m ih show ?thesis by simp
  next
    case False
    with n ih show ?thesis by simp
  qed
qed

lemma POST_not_array:
  assumes "\<forall>ts. request_json \<noteq> Some (Arr ts)"
  shows "fst (POST h request_json)
          = \<lparr> status = 400, body = Obj [(''error'', Str ''Invalid trace data'')] \<rparr>"
proof (cases request_json)
  case None
  then show ?thesis by (simp add: POST_def invalid_trace_data_def)
next
  case (Some v)
  with assms show ?thesis
    by (cases v) (simp_all add: POST_def invalid_trace_data_def)
qed

text \<open>
  Claim C7, as stated, fails. The endpoint looks at the name of an event and never at
  its level: for a well-formed array holding one event named \<open>Supabase.note\<close> of level
  info it makes one diagnostic call on the console, and no event of the array is an
  error. And a well-formed error event whose timestamp lies outside the range of a date
  is answered with status 400, since formatting it raises RangeError.
\<close>

theorem POST_traces_counterexample:
  "is_TraceEvent note_event \<and> \<not> is_error_event note_event
   \<and> length (snd (POST plain_host (Some (Arr [note_event])))) = 1
   \<and> length (filter (\<lambda>t. supabase_named t \<and> is_error_event t) [note_event]) = 0
   \<and> is_TraceEvent late_event \<and> is_error_event late_event
   \<and> status (fst (POST plain_host (Some (Arr [late_event])))) = 400"
  by (simp add: note_event_def late_event_def is_TraceEvent_def is_error_event_def optional_def
      POST_def name_startsWith_Supabase_def formatSupabaseError_def Date_toISOString_def
      duration_suffix_def supabase_named_def startsWith_def invalid_trace_data_def)

text \<open>
  Claim C7, amended. For a body that is an array of well-formed trace events in which
  every event named \<open>Supabase.\<close>... has a timestamp within the range of a date, the
  response is status 200 with body \<open>{ok: true}\<close>, and the console calls are exactly one
  diagnostic per event whose name starts with \<open>Supabase.\<close>, whatever its level, in the
  order of the array. For a body that is no array (or no JSON), the response is status
  400 with body \<open>{error: "Invalid trace data"}\<close>.
\<close>

theorem POST_traces_response:
  "((\<forall>t \<in> set ts. is_TraceEvent t) \<and> (\<forall>t \<in> set ts. supabase_named t \<longrightarrow> in_Date_range t) \<longrightarrow>
      POST h (Some (Arr ts))
        = (\<lparr> status = 200, body = Obj [(''ok'', Bool True)] \<rparr>,
           map (diagnostic h) (filter supabase_named ts))
      \<and> length (snd (POST h (Some (Arr ts)))) = length (filter supabase_named ts))
   \<and> ((\<forall>ts'. request_json \<noteq> Some (Arr ts')) \<longrightarrow>
      fst (POST h request_json)
        = \<lparr> status = 400, body = Obj [(''error'', Str ''Invalid trace data'')] \<rparr>)"
  by (simp add: POST_not_array) (simp add: POST_def forEach_trace_TraceEvents)

theorem POST_traces_response_witness:
  "is_TraceEvent error_event \<and> is_TraceEvent other_event \<and> is_TraceEvent note_event
   \<and> in_Date_range error_event \<and> in_Date_range other_event \<and> in_Date_range note_event
   \<and> fst (POST plain_host (Some (Arr [error_event, other_event, note_event])))
       = \<lparr> status = 200, body = Obj [(''ok'', Bool True)] \<rparr>
   \<and> length (snd (POST plain_host (Some (Arr [error_event, other_event, note_event])))) = 2
   \<and> (\<forall>ts'. Some (Obj [(''name'', Str ''Supabase.error'')]) \<noteq> Some (Arr ts'))
   \<and> fst (POST plain_host (Some (Obj [(''name'', Str ''Supabase.error'')])))
       = \<lparr> status = 400, body = Obj [(''error'', Str ''Invalid trace data'')] \<rparr>"
proof -
  let ?ts = "[error_event, other_event, note_event]"
  have a: "\<forall>t \<in> set ?ts. is_TraceEvent t"
    by (simp add: error_event_def other_event_def note_event_def is_TraceEvent_def
        is_TraceAttributes_def optional_def)
  have b: "\<forall>t \<in> set ?ts. supabase_named t \<longrightarrow> in_Date_range t"
    by (simp add: error_event_def other_event_def note_event_def in_Date_range_def)
  have n: "length (filter supabase_named ?ts) = 2"
    by (simp add: error_event_def other_event_def note_event_def supabase_named_def startsWith_def)
  have c: "\<forall>ts'. Some (Obj [(''name'', Str ''Supabase.error'')]) \<noteq> Some (Arr ts')" by simp
  have d: "in_Date_range error_event \<and> in_Date_range other_event \<and> in_Date_range note_event"
    by (simp add: error_event_def other_event_def note_event_def in_Date_range_def)
  from POST_traces_response[of ?ts plain_host "Some (Obj [(''name'', Str ''Supabase.error'')])"]
    a b c d n
  show ?thesis by simp
qed

end
